theory Spec2Isabelle
  imports Complex_Main "HOL-Library.Sublist" "HOL-Library.Log_Nat"
begin

section \<open>JavaScript values as the webhook handler sees them\<close>

text \<open>
  The request body is whatever the transport parsed (\<^verbatim>\<open>req.body\<close>, of type \<^verbatim>\<open>any\<close>):
  the TypeScript interfaces \<^verbatim>\<open>RazorpayPayment\<close> and \<^verbatim>\<open>RazorpayWebhookPayload\<close> are not
  enforced at run time, so the payload is modelled as an arbitrary JSON value.
  An object is the association list of its own properties; a lookup takes the first
  binding of a name.

  Numbers: \<open>Num q\<close> is the finite double whose value is the rational \<open>q\<close>; the
  transport has read each number of the body as the nearest double. The one arithmetic
  operation of the handlers, the division by 100, rounds its exact quotient to the
  nearest double (\<open>double_of\<close> below). \<open>NaN\<close> is kept because coercing a non-number
  can produce it; the infinities and the negative zero are outside the model.

  Strings are byte strings in UTF-8, so that a string of ASCII characters is a list of
  bytes below 128. On such a string \<^verbatim>\<open>toLowerCase\<close> and \<^verbatim>\<open>trim\<close> are defined here; on
  a string with other characters they are the engine's Unicode case conversion and
  white space, which the repository does not define.
\<close>

datatype js =
    Undefined
  | Null
  | Bool bool
  | Num rat
  | NaN
  | Str string
  | Arr "js list"
  | Obj "(string \<times> js) list"

text \<open>A thrown value: an instance of \<^verbatim>\<open>Error\<close> with its message, or anything else.\<close>

datatype exn = Error string | NonError

text \<open>Sequencing of computations that may throw.\<close>

definition andThen :: "exn + 'a \<Rightarrow> ('a \<Rightarrow> exn + 'b) \<Rightarrow> exn + 'b" where
  "andThen m f = (case m of Inl e \<Rightarrow> Inl e | Inr x \<Rightarrow> f x)"

text \<open>\<^verbatim>\<open>!!v\<close>: the truthiness of a value.\<close>

fun truthy :: "js \<Rightarrow> bool" where
  "truthy Undefined = False"
| "truthy Null = False"
| "truthy (Bool b) = b"
| "truthy (Num q) = (q \<noteq> 0)"
| "truthy NaN = False"
| "truthy (Str s) = (s \<noteq> [])"
| "truthy (Arr xs) = True"
| "truthy (Obj ps) = True"

text \<open>\<^verbatim>\<open>typeof v\<close>.\<close>

fun typeof :: "js \<Rightarrow> string" where
  "typeof Undefined = ''undefined''"
| "typeof Null = ''object''"
| "typeof (Bool b) = ''boolean''"
| "typeof (Num q) = ''number''"
| "typeof NaN = ''number''"
| "typeof (Str s) = ''string''"
| "typeof (Arr xs) = ''object''"
| "typeof (Obj ps) = ''object''"

text \<open>
  \<^verbatim>\<open>v.name\<close>: reading a property of \<^verbatim>\<open>undefined\<close> or \<^verbatim>\<open>null\<close> throws a
  \<^verbatim>\<open>TypeError\<close> (the message is the one of V8, the engine of the deployment target).
  The handlers read only the names \<^verbatim>\<open>event\<close>, \<^verbatim>\<open>payment\<close>, \<^verbatim>\<open>id\<close>, \<^verbatim>\<open>email\<close>,
  \<^verbatim>\<open>amount\<close>, \<^verbatim>\<open>notes\<close>, \<^verbatim>\<open>event_id\<close> and \<^verbatim>\<open>user_email\<close>; none of them is a built-in
  property of a string, a number, a boolean or an array, so on these the read gives
  \<^verbatim>\<open>undefined\<close>.
\<close>

fun get :: "js \<Rightarrow> string \<Rightarrow> exn + js" where
  "get Undefined name =
     Inl (Error (''Cannot read properties of undefined (reading '' @ [CHR 0x27] @ name @ [CHR 0x27] @ '')''))"
| "get Null name =
     Inl (Error (''Cannot read properties of null (reading '' @ [CHR 0x27] @ name @ [CHR 0x27] @ '')''))"
| "get (Obj ps) name = Inr (case map_of ps name of None \<Rightarrow> Undefined | Some v \<Rightarrow> v)"
| "get v name = Inr Undefined"

text \<open>\<^verbatim>\<open>v?.name\<close>: optional chaining gives \<^verbatim>\<open>undefined\<close> where the plain read throws.\<close>

definition opt_get :: "js \<Rightarrow> string \<Rightarrow> js" where
  "opt_get v name = (case get v name of Inl e \<Rightarrow> Undefined | Inr x \<Rightarrow> x)"

subsection \<open>Coercions\<close>

text \<open>
  What the engine does and the repository does not define: the decimal rendering of a
  number, the reading of a string as a number, \<^verbatim>\<open>toLowerCase\<close> and \<^verbatim>\<open>trim\<close> on
  strings that hold characters beyond ASCII, and the clock.
\<close>

record runtime =
  Number_toString :: "rat \<Rightarrow> string"
  StringToNumber :: "string \<Rightarrow> js"
  Unicode_toLowerCase :: "string \<Rightarrow> string"
  Unicode_trim :: "string \<Rightarrow> string"
  now :: string

text \<open>\<^verbatim>\<open>Array.prototype.join\<close> with a comma, on rendered elements.\<close>

fun join :: "string list \<Rightarrow> string" where
  "join [] = []"
| "join [s] = s"
| "join (s # t # ts) = s @ '','' @ join (t # ts)"

text \<open>
  The string a template literal inserts for an embedded value. An object from a JSON
  body renders as \<^verbatim>\<open>[object Object]\<close> through the inherited \<^verbatim>\<open>toString\<close>; when it
  has a property \<^verbatim>\<open>toString\<close> of its own, that property is not callable, the
  inherited \<^verbatim>\<open>valueOf\<close> gives no primitive, and the conversion throws a
  \<^verbatim>\<open>TypeError\<close>. An array renders its elements joined by commas, \<^verbatim>\<open>null\<close> and
  \<^verbatim>\<open>undefined\<close> elements as the empty string; the first element that throws ends the
  conversion.
\<close>

fun ToString :: "runtime \<Rightarrow> js \<Rightarrow> exn + string"
  and ToString_elements :: "runtime \<Rightarrow> js list \<Rightarrow> exn + string list" where
  "ToString rt Undefined = Inr ''undefined''"
| "ToString rt Null = Inr ''null''"
| "ToString rt (Bool b) = Inr (if b then ''true'' else ''false'')"
| "ToString rt (Num q) = Inr (Number_toString rt q)"
| "ToString rt NaN = Inr ''NaN''"
| "ToString rt (Str s) = Inr s"
| "ToString rt (Arr xs) =
     (case ToString_elements rt xs of Inl e \<Rightarrow> Inl e | Inr ss \<Rightarrow> Inr (join ss))"
| "ToString rt (Obj ps) =
     (if map_of ps ''toString'' = None then Inr ''[object Object]''
      else Inl (Error ''Cannot convert object to primitive value''))"
| "ToString_elements rt [] = Inr []"
| "ToString_elements rt (x # xs) =
     (case (if x = Undefined \<or> x = Null then Inr [] else ToString rt x) of
        Inl e \<Rightarrow> Inl e
      | Inr s \<Rightarrow>
         (case ToString_elements rt xs of Inl e \<Rightarrow> Inl e | Inr ss \<Rightarrow> Inr (s # ss)))"

text \<open>
  The operand of an arithmetic operator, as a number (\<open>Num\<close> or \<open>NaN\<close>). An object
  or an array is first turned into a string, as above, and throws where that does.
\<close>

fun ToNumber :: "runtime \<Rightarrow> js \<Rightarrow> exn + js" where
  "ToNumber rt Undefined = Inr NaN"
| "ToNumber rt Null = Inr (Num 0)"
| "ToNumber rt (Bool b) = Inr (Num (if b then 1 else 0))"
| "ToNumber rt (Num q) = Inr (Num q)"
| "ToNumber rt NaN = Inr NaN"
| "ToNumber rt (Str s) = Inr (StringToNumber rt s)"
| "ToNumber rt (Arr xs) = andThen (ToString rt (Arr xs)) (\<lambda>s. Inr (StringToNumber rt s))"
| "ToNumber rt (Obj ps) = andThen (ToString rt (Obj ps)) (\<lambda>s. Inr (StringToNumber rt s))"

subsection \<open>Doubles\<close>

text \<open>
  A finite double is an integer of magnitude below \<open>2^53\<close> times a power of two. The
  result of an arithmetic operation is its exact result rounded to the nearest double,
  a tie going to the double with the even significand.

  \<open>expo x\<close> is the exponent of the power of two at or below \<open>\<bar>x\<bar>\<close> (lemma
  \<open>expo_bounds\<close>), computed from the bit length of the integer part, or of the integer
  part of the inverse when \<open>\<bar>x\<bar> < 1\<close>. \<open>ulp x\<close> is the distance between the doubles
  around \<open>x\<close>: 52 binary places below the leading one, and \<open>2^-1074\<close> in the subnormal
  range. \<open>double_of x\<close> is the double nearest to \<open>x\<close>, for \<open>x\<close> below the overflow
  threshold, which a quotient of a double by 100 is.
\<close>

definition expo :: "rat \<Rightarrow> int" where
  "expo x = (if 1 \<le> \<bar>x\<bar> then bitlen \<lfloor>\<bar>x\<bar>\<rfloor> - 1 else - bitlen (\<lceil>1 / \<bar>x\<bar>\<rceil> - 1))"

definition round_half_even :: "rat \<Rightarrow> int" where
  "round_half_even y =
     (let f = \<lfloor>y\<rfloor> in
      if y - of_int f < 1 / 2 then f
      else if 1 / 2 < y - of_int f then f + 1
      else if even f then f else f + 1)"

definition ulp :: "rat \<Rightarrow> rat" where
  "ulp x = 2 powi (max (expo x - 52) (- 1074))"

definition double_of :: "rat \<Rightarrow> rat" where
  "double_of x = (if x = 0 then 0 else of_int (round_half_even (x / ulp x)) * ulp x)"

text \<open>\<^verbatim>\<open>v / 100\<close>.\<close>

definition div100 :: "runtime \<Rightarrow> js \<Rightarrow> exn + js" where
  "div100 rt v =
     andThen (ToNumber rt v) (\<lambda>n.
       Inr (case n of Num q \<Rightarrow> Num (double_of (q / 100)) | _ \<Rightarrow> NaN))"

text \<open>
  \<^verbatim>\<open>Math.round(v)\<close>: the nearest integer, a half rounding towards plus infinity.
  The result is exact: it is a double whenever the argument is.
\<close>

definition Math_round :: "runtime \<Rightarrow> js \<Rightarrow> exn + js" where
  "Math_round rt v =
     andThen (ToNumber rt v) (\<lambda>n.
       Inr (case n of Num q \<Rightarrow> Num (of_int \<lfloor>q + 1 / 2\<rfloor>) | _ \<Rightarrow> NaN))"

subsection \<open>String methods\<close>

text \<open>A string of ASCII characters.\<close>

definition ascii :: "string \<Rightarrow> bool" where
  "ascii s = list_all (\<lambda>c. (of_char c :: nat) < 128) s"

text \<open>
  \<^verbatim>\<open>s.toLowerCase()\<close>: on an ASCII string the letters A to Z become a to z and
  nothing else changes; on any other string the result is the engine's.
\<close>

definition lower_char :: "char \<Rightarrow> char" where
  "lower_char c =
     (let n = (of_char c :: nat) in if 65 \<le> n \<and> n \<le> 90 then char_of (n + 32) else c)"

definition toLowerCase :: "runtime \<Rightarrow> string \<Rightarrow> string" where
  "toLowerCase rt s = (if ascii s then map lower_char s else Unicode_toLowerCase rt s)"

text \<open>
  \<^verbatim>\<open>s.trim()\<close> removes white space and line terminators from both ends. Those of
  ASCII are tab, line feed, vertical tab, form feed, carriage return and space; on a
  string with other characters the result is the engine's.
\<close>

definition is_space :: "char \<Rightarrow> bool" where
  "is_space c = ((of_char c :: nat) \<in> {9, 10, 11, 12, 13, 32})"

definition trim :: "runtime \<Rightarrow> string \<Rightarrow> string" where
  "trim rt s =
     (if ascii s then rev (dropWhile is_space (rev (dropWhile is_space s)))
      else Unicode_trim rt s)"

text \<open>\<^verbatim>\<open>s.includes(t)\<close>: \<open>t\<close> occurs in \<open>s\<close> as a contiguous run.\<close>

fun str_includes :: "string \<Rightarrow> string \<Rightarrow> bool" where
  "str_includes [] t = (t = [])"
| "str_includes (c # cs) t = (prefix t (c # cs) \<or> str_includes cs t)"

text \<open>
  \<^verbatim>\<open>v.toLowerCase().trim()\<close>: only a string has the method; on \<^verbatim>\<open>undefined\<close> and
  \<^verbatim>\<open>null\<close> the read of the method throws, on any other value the call does. The
  argument \<open>path\<close> is the source text of \<open>v\<close>, which the message of the second
  error quotes.
\<close>

fun toLowerCase_trim :: "runtime \<Rightarrow> string \<Rightarrow> js \<Rightarrow> exn + js" where
  "toLowerCase_trim rt path (Str s) = Inr (Str (trim rt (toLowerCase rt s)))"
| "toLowerCase_trim rt path Undefined = andThen (get Undefined ''toLowerCase'') Inr"
| "toLowerCase_trim rt path Null = andThen (get Null ''toLowerCase'') Inr"
| "toLowerCase_trim rt path v = Inl (Error (path @ ''.toLowerCase is not a function''))"

section \<open>The handler's surroundings\<close>

text \<open>\<^verbatim>\<open>process.env\<close>: a variable is a string or \<^verbatim>\<open>undefined\<close>.\<close>

record process_env =
  SUPABASE_URL :: "string option"
  SUPABASE_SERVICE_ROLE_KEY :: "string option"

text \<open>\<^verbatim>\<open>!!process.env.X\<close>: set, and not the empty string.\<close>

fun env_truthy :: "string option \<Rightarrow> bool" where
  "env_truthy None = False"
| "env_truthy (Some s) = (s \<noteq> [])"

text \<open>
  The request: \<^verbatim>\<open>req.method\<close>, and \<^verbatim>\<open>req.body\<close> as the transport has parsed it.
\<close>

record request =
  req_method :: "string option"
  req_body :: js

text \<open>
  The response: the status, the headers set, and the value handed to \<^verbatim>\<open>res.json\<close>
  (\<open>None\<close> after \<^verbatim>\<open>res.end()\<close>, which sends no body).
\<close>

record response =
  res_status :: nat
  res_headers :: "(string \<times> string) list"
  res_body :: "js option"

definition json :: "(string \<times> string) list \<Rightarrow> nat \<Rightarrow> js \<Rightarrow> response" where
  "json hs st v = \<lparr>res_status = st, res_headers = hs, res_body = Some v\<rparr>"

definition end_response :: "(string \<times> string) list \<Rightarrow> nat \<Rightarrow> response" where
  "end_response hs st = \<lparr>res_status = st, res_headers = hs, res_body = None\<rparr>"

text \<open>
  The row the handler writes. Its fields hold what the handler computes at run time,
  which the interface \<^verbatim>\<open>RegistrationRecord\<close> does not constrain.
\<close>

record RegistrationRecord =
  event_id :: js
  user_email :: js
  amount :: js
  payment_id :: js
  status :: string

text \<open>
  The store is the library \<^verbatim>\<open>@supabase/supabase-js\<close>, which is not part of the
  repository: \<^verbatim>\<open>createClient\<close> returns a client or throws, and the awaited
  \<^verbatim>\<open>client.from(table).insert(rows).select()\<close> resolves to a pair of \<^verbatim>\<open>data\<close>
  (the rows, or \<^verbatim>\<open>null\<close>) and \<^verbatim>\<open>error\<close> (a \<^verbatim>\<open>PostgrestError\<close>, or \<^verbatim>\<open>null\<close>), or
  rejects. The handlers take the library as a parameter, so that what is proved of them
  holds for each behaviour of it.
\<close>

record PostgrestError =
  message :: string
  details :: string
  hint :: string
  code :: string

record insert_result =
  data :: "js list option"
  error :: "PostgrestError option"

datatype client =
  Client (from_insert_select: "string \<Rightarrow> RegistrationRecord list \<Rightarrow> exn + insert_result")

type_synonym supabase_js = "string option \<Rightarrow> string option \<Rightarrow> exn + client"

text \<open>The calls a handler makes to the library, in order.\<close>

datatype store_call =
    CreateClient "string option" "string option"
  | Insert string "RegistrationRecord list"

fun is_insert :: "store_call \<Rightarrow> bool" where
  "is_insert (Insert table rows) = True"
| "is_insert (CreateClient url key) = False"

section \<open>The handler of \<^verbatim>\<open>api/payment-webhook.ts\<close>\<close>

text \<open>
  Logging is left out: a log statement throws only where the statement after it throws
  as well, with the same error.
\<close>

definition cors :: "(string \<times> string) list" where
  "cors =
     [(''Access-Control-Allow-Origin'', ''*''),
      (''Access-Control-Allow-Methods'', ''POST''),
      (''Access-Control-Allow-Headers'', ''Content-Type'')]"

text \<open>The four checks on \<^verbatim>\<open>payment\<close>, each pushing the name of its field.\<close>

definition missingFields :: "js \<Rightarrow> string list" where
  "missingFields payment =
     (if \<not> truthy (opt_get payment ''id'') then [''payment.id''] else []) @
     (if \<not> truthy (opt_get payment ''email'') then [''payment.email''] else []) @
     (if typeof (opt_get payment ''amount'') \<noteq> ''number'' then [''payment.amount''] else []) @
     (if \<not> truthy (opt_get (opt_get payment ''notes'') ''event_id'')
      then [''payment.notes.event_id''] else [])"

definition received_data :: "js \<Rightarrow> js" where
  "received_data payment =
     Obj [(''hasPayment'', Bool (truthy payment)),
          (''hasId'', Bool (truthy (opt_get payment ''id''))),
          (''hasEmail'', Bool (truthy (opt_get payment ''email''))),
          (''hasAmount'', Str (typeof (opt_get payment ''amount''))),
          (''hasNotes'', Bool (truthy (opt_get payment ''notes''))),
          (''hasEventId'', Bool (truthy (opt_get (opt_get payment ''notes'') ''event_id'')))]"

text \<open>\<^verbatim>\<open>Math.round(payment.amount / 100)\<close>.\<close>

definition amountInRupees :: "runtime \<Rightarrow> js \<Rightarrow> exn + js" where
  "amountInRupees rt payment =
     andThen (get payment ''amount'') (\<lambda>a. andThen (div100 rt a) (Math_round rt))"

text \<open>The record, its fields evaluated in the order of the object literal.\<close>

definition registrationData :: "runtime \<Rightarrow> js \<Rightarrow> js \<Rightarrow> exn + RegistrationRecord" where
  "registrationData rt payment rupees =
     andThen (get payment ''notes'') (\<lambda>notes.
     andThen (get notes ''event_id'') (\<lambda>ev.
     andThen (get payment ''email'') (\<lambda>email.
     andThen (toLowerCase_trim rt ''payment.email'' email) (\<lambda>normalized.
     andThen (get payment ''id'') (\<lambda>pid.
       Inr \<lparr>event_id = ev, user_email = normalized, amount = rupees,
            payment_id = pid, status = ''success''\<rparr>)))))"

text \<open>What the handler answers once the insert has resolved.\<close>

definition after_insert :: "runtime \<Rightarrow> js \<Rightarrow> js \<Rightarrow> insert_result \<Rightarrow> exn + response" where
  "after_insert rt payment rupees r =
     (case error r of
        Some err \<Rightarrow>
          if code err = ''23505'' \<and> str_includes (message err) ''payment_id'' then
            andThen (get payment ''id'') (\<lambda>pid.
              Inr (json cors 200
                (Obj [(''message'', Str ''Payment already processed''),
                      (''payment_id'', pid),
                      (''duplicate'', Bool True)])))
          else
            Inr (json cors 500
              (Obj [(''error'', Str ''Failed to save registration data''),
                    (''details'', Str (message err)),
                    (''code'', Str (code err))]))
      | None \<Rightarrow>
          (case data r of
             None \<Rightarrow>
               Inr (json cors 500
                 (Obj [(''error'', Str ''Registration may not have been saved properly'')]))
           | Some [] \<Rightarrow>
               Inr (json cors 500
                 (Obj [(''error'', Str ''Registration may not have been saved properly'')]))
           | Some (row # rest) \<Rightarrow>
               andThen (get row ''id'') (\<lambda>rid.
               andThen (get row ''event_id'') (\<lambda>ev.
                 Inr (json cors 200
                   (Obj [(''message'', Str ''Payment processed and registration saved successfully''),
                         (''registration_id'', rid),
                         (''event_id'', ev),
                         (''amount_rupees'', rupees),
                         (''timestamp'', Str (now rt))]))))))"

text \<open>
  The \<^verbatim>\<open>try\<close> block: what it returns or throws, and the calls made to the library
  up to there.
\<close>

definition handler_try ::
  "runtime \<Rightarrow> process_env \<Rightarrow> supabase_js \<Rightarrow> request \<Rightarrow> (exn + response) \<times> store_call list" where
  "handler_try rt env createClient req =
     (if \<not> env_truthy (SUPABASE_URL env) \<or> \<not> env_truthy (SUPABASE_SERVICE_ROLE_KEY env) then
        (Inr (json cors 500
           (Obj [(''error'', Str ''Server configuration error: Missing Supabase credentials'')])), [])
      else
        let calls = [CreateClient (SUPABASE_URL env) (SUPABASE_SERVICE_ROLE_KEY env)] in
        case createClient (SUPABASE_URL env) (SUPABASE_SERVICE_ROLE_KEY env) of
          Inl e \<Rightarrow> (Inl e, calls)
        | Inr supabase \<Rightarrow>
           (case get (req_body req) ''event'' of
              Inl e \<Rightarrow> (Inl e, calls)
            | Inr event \<Rightarrow>
               if event \<noteq> Str ''payment.captured'' then
                 (case ToString rt event of
                    Inl e \<Rightarrow> (Inl e, calls)
                  | Inr received \<Rightarrow>
                     (Inr (json cors 200
                        (Obj [(''message'',
                           Str (''Event ignored. Only payment.captured events are processed. Received: ''
                                @ received))])), calls))
               else
                 (case get (req_body req) ''payment'' of
                    Inl e \<Rightarrow> (Inl e, calls)
                  | Inr payment \<Rightarrow>
                     if missingFields payment \<noteq> [] then
                       (Inr (json cors 400
                          (Obj [(''error'', Str ''Missing required payment data''),
                                (''missing_fields'', Arr (map Str (missingFields payment))),
                                (''received_data'', received_data payment)])), calls)
                     else
                       (case amountInRupees rt payment of
                          Inl e \<Rightarrow> (Inl e, calls)
                        | Inr rupees \<Rightarrow>
                           (case registrationData rt payment rupees of
                              Inl e \<Rightarrow> (Inl e, calls)
                            | Inr registration \<Rightarrow>
                               let calls' = calls @ [Insert ''eventsregistrations'' [registration]] in
                               (case from_insert_select supabase ''eventsregistrations'' [registration] of
                                  Inl e \<Rightarrow> (Inl e, calls')
                                | Inr r \<Rightarrow> (after_insert rt payment rupees r, calls')))))))"

text \<open>The \<^verbatim>\<open>catch\<close> block.\<close>

definition catch_response :: "exn \<Rightarrow> response" where
  "catch_response e =
     json cors 500
       (Obj [(''error'', Str ''Internal server error while processing webhook''),
             (''details'', Str (case e of Error m \<Rightarrow> m | NonError \<Rightarrow> ''Unknown error occurred''))])"

definition handler ::
  "runtime \<Rightarrow> process_env \<Rightarrow> supabase_js \<Rightarrow> request \<Rightarrow> response \<times> store_call list" where
  "handler rt env createClient req =
     (if req_method req = Some ''OPTIONS'' then (end_response cors 200, [])
      else if req_method req \<noteq> Some ''POST'' then
        (json cors 405
           (Obj [(''error'', Str ''Method not allowed. Only POST requests are accepted.''),
                 (''allowed_methods'', Arr [Str ''POST''])]), [])
      else
        case handler_try rt env createClient req of
          (Inr res, calls) \<Rightarrow> (res, calls)
        | (Inl e, calls) \<Rightarrow> (catch_response e, calls))"

section \<open>The variant handler of the second source file\<close>

text \<open>
  The second file holds a shorter handler for the same route. It sets no header, has no
  answer of its own for \<^verbatim>\<open>OPTIONS\<close>, does not check the configuration, validates by
  one short-circuiting condition on truthiness, divides the amount without rounding,
  stores the email as received and answers every store error with 500.
\<close>

text \<open>
  The condition
  \<^verbatim>\<open>!payment.id || !payment.email || !payment.amount || !payment.notes?.event_id\<close>,
  evaluated from the left; the first read throws when \<^verbatim>\<open>payment\<close> is \<^verbatim>\<open>undefined\<close>
  or \<^verbatim>\<open>null\<close>.
\<close>

definition variant_invalid :: "js \<Rightarrow> exn + bool" where
  "variant_invalid payment =
     andThen (get payment ''id'') (\<lambda>pid.
       if \<not> truthy pid then Inr True else
     andThen (get payment ''email'') (\<lambda>email.
       if \<not> truthy email then Inr True else
     andThen (get payment ''amount'') (\<lambda>a.
       if \<not> truthy a then Inr True else
     andThen (get payment ''notes'') (\<lambda>notes.
       Inr (\<not> truthy (opt_get notes ''event_id''))))))"

definition variant_registrationData :: "runtime \<Rightarrow> js \<Rightarrow> exn + RegistrationRecord" where
  "variant_registrationData rt payment =
     andThen (get payment ''amount'') (\<lambda>a.
     andThen (div100 rt a) (\<lambda>rupees.
     andThen (get payment ''notes'') (\<lambda>notes.
     andThen (get notes ''event_id'') (\<lambda>ev.
     andThen (get payment ''email'') (\<lambda>email.
     andThen (get payment ''id'') (\<lambda>pid.
       Inr \<lparr>event_id = ev, user_email = email, amount = rupees,
            payment_id = pid, status = ''success''\<rparr>))))))"

text \<open>\<^verbatim>\<open>data[0]\<close>, read without a check of \<^verbatim>\<open>data\<close>.\<close>

fun first_row :: "js list option \<Rightarrow> exn + js" where
  "first_row None = Inl (Error (''Cannot read properties of null (reading '' @ [CHR 0x27] @ ''0'' @ [CHR 0x27] @ '')''))"
| "first_row (Some []) = Inr Undefined"
| "first_row (Some (row # rest)) = Inr row"

definition variant_after_insert :: "insert_result \<Rightarrow> exn + response" where
  "variant_after_insert r =
     (case error r of
        Some err \<Rightarrow>
          Inr (json [] 500
            (Obj [(''error'', Str ''Failed to save registration data''),
                  (''details'', Str (message err))]))
      | None \<Rightarrow>
          andThen (first_row (data r)) (\<lambda>row.
          andThen (get row ''id'') (\<lambda>rid.
            Inr (json [] 200
              (Obj [(''message'', Str ''Payment processed and registration saved successfully''),
                    (''registration_id'', rid)])))))"

definition variant_try ::
  "runtime \<Rightarrow> process_env \<Rightarrow> supabase_js \<Rightarrow> request \<Rightarrow> (exn + response) \<times> store_call list" where
  "variant_try rt env createClient req =
     (let calls = [CreateClient (SUPABASE_URL env) (SUPABASE_SERVICE_ROLE_KEY env)] in
      case createClient (SUPABASE_URL env) (SUPABASE_SERVICE_ROLE_KEY env) of
        Inl e \<Rightarrow> (Inl e, calls)
      | Inr supabase \<Rightarrow>
         (case get (req_body req) ''event'' of
            Inl e \<Rightarrow> (Inl e, calls)
          | Inr event \<Rightarrow>
             if event \<noteq> Str ''payment.captured'' then
               (Inr (json [] 200
                  (Obj [(''message'',
                     Str ''Event ignored. Only payment.captured events are processed.'')])), calls)
             else
               (case get (req_body req) ''payment'' of
                  Inl e \<Rightarrow> (Inl e, calls)
                | Inr payment \<Rightarrow>
                   (case variant_invalid payment of
                      Inl e \<Rightarrow> (Inl e, calls)
                    | Inr True \<Rightarrow>
                       (Inr (json [] 400
                          (Obj [(''error'',
                             Str ''Missing required payment data: id, email, amount, or notes.event_id'')])),
                        calls)
                    | Inr False \<Rightarrow>
                       (case variant_registrationData rt payment of
                          Inl e \<Rightarrow> (Inl e, calls)
                        | Inr registration \<Rightarrow>
                           let calls' = calls @ [Insert ''eventsregistrations'' [registration]] in
                           (case from_insert_select supabase ''eventsregistrations'' [registration] of
                              Inl e \<Rightarrow> (Inl e, calls')
                            | Inr r \<Rightarrow> (variant_after_insert r, calls')))))))"

definition variant_catch_response :: "exn \<Rightarrow> response" where
  "variant_catch_response e =
     json [] 500
       (Obj [(''error'', Str ''Internal server error while processing webhook''),
             (''details'', Str (case e of Error m \<Rightarrow> m | NonError \<Rightarrow> ''Unknown error''))])"

definition variant_handler ::
  "runtime \<Rightarrow> process_env \<Rightarrow> supabase_js \<Rightarrow> request \<Rightarrow> response \<times> store_call list" where
  "variant_handler rt env createClient req =
     (if req_method req \<noteq> Some ''POST'' then
        (json [] 405
           (Obj [(''error'', Str ''Method not allowed. Only POST requests are accepted.'')]), [])
      else
        case variant_try rt env createClient req of
          (Inr res, calls) \<Rightarrow> (res, calls)
        | (Inl e, calls) \<Rightarrow> (variant_catch_response e, calls))"

section \<open>Sample surroundings and requests\<close>

definition sample_runtime :: runtime where
  "sample_runtime =
     \<lparr>Number_toString = (\<lambda>q. []), StringToNumber = (\<lambda>s. NaN),
      Unicode_toLowerCase = (\<lambda>s. s), Unicode_trim = (\<lambda>s. s),
      now = ''2024-01-01T00:00:00.000Z''\<rparr>"

definition configured :: process_env where
  "configured =
     \<lparr>SUPABASE_URL = Some ''https://project.supabase.co'',
      SUPABASE_SERVICE_ROLE_KEY = Some ''service-role-key''\<rparr>"

definition unconfigured :: process_env where
  "unconfigured = \<lparr>SUPABASE_URL = None, SUPABASE_SERVICE_ROLE_KEY = None\<rparr>"

text \<open>A library whose client resolves every insert to the same result.\<close>

definition resolving :: "insert_result \<Rightarrow> supabase_js" where
  "resolving r url key = Inr (Client (\<lambda>table rows. Inr r))"

definition stored :: insert_result where
  "stored =
     \<lparr>data = Some [Obj [(''id'', Str ''row-1''), (''event_id'', Str ''event_a''),
                        (''user_email'', Str ''user@example.com'')]],
      error = None\<rparr>"

definition duplicate_key :: insert_result where
  "duplicate_key =
     \<lparr>data = None,
      error = Some \<lparr>message = ''duplicate key value violates unique constraint eventsregistrations_payment_id_key'',
                    details = ''Key (payment_id)=(pay_1) already exists.'',
                    hint = [],
                    code = ''23505''\<rparr>\<rparr>"

definition no_rows :: insert_result where
  "no_rows = \<lparr>data = Some [], error = None\<rparr>"

definition notification :: "js \<Rightarrow> request" where
  "notification payment =
     \<lparr>req_method = Some ''POST'',
      req_body = Obj [(''event'', Str ''payment.captured''), (''payment'', payment)]\<rparr>"

definition sample_payment :: "js \<Rightarrow> js \<Rightarrow> js" where
  "sample_payment email minor =
     Obj [(''id'', Str ''pay_1''), (''email'', email), (''amount'', minor),
          (''notes'', Obj [(''event_id'', Str ''event_a'')])]"

section \<open>Vocabulary for the statements\<close>

text \<open>The values that count as false in a condition.\<close>

definition falsy :: "js set" where
  "falsy = {Undefined, Null, Bool False, Num 0, NaN, Str []}"

text \<open>The values whose \<^verbatim>\<open>typeof\<close> is \<^verbatim>\<open>number\<close>.\<close>

fun is_number :: "js \<Rightarrow> bool" where
  "is_number (Num q) = True"
| "is_number NaN = True"
| "is_number v = False"

text \<open>
  The required fields as the specification words them (its section 4.1, step 4):
  \<^verbatim>\<open>payment.id\<close>, \<^verbatim>\<open>payment.email\<close> and \<^verbatim>\<open>payment.notes.event_id\<close> are non-empty
  strings, \<^verbatim>\<open>payment.amount\<close> is numeric; a field that is absent or of another type is
  to be named in \<^verbatim>\<open>missing_fields\<close>. This definition follows the specification, not the
  code; it is compared with \<open>missingFields\<close> below.
\<close>

fun nonempty_string :: "js \<Rightarrow> bool" where
  "nonempty_string (Str s) = (s \<noteq> [])"
| "nonempty_string v = False"

definition spec_missing_fields :: "js \<Rightarrow> string list" where
  "spec_missing_fields payment =
     (if nonempty_string (opt_get payment ''id'') then [] else [''payment.id'']) @
     (if nonempty_string (opt_get payment ''email'') then [] else [''payment.email'']) @
     (if is_number (opt_get payment ''amount'') then [] else [''payment.amount'']) @
     (if nonempty_string (opt_get (opt_get payment ''notes'') ''event_id'')
      then [] else [''payment.notes.event_id''])"

text \<open>
  What the claim about the email says of an ASCII string, in terms that do not mention
  the handler's functions. \<open>lower_cased s l\<close>: \<open>l\<close> is \<open>s\<close> with each letter A to Z
  replaced by the letter a to z at the same place and nothing else changed.
  \<open>trimmed l e\<close>: \<open>e\<close> is \<open>l\<close> without a run of white space at its beginning and
  at its end, and neither begins nor ends with white space.
\<close>

definition lower_cased :: "string \<Rightarrow> string \<Rightarrow> bool" where
  "lower_cased s l \<longleftrightarrow>
     length l = length s \<and>
     (\<forall>i < length s.
        (of_char (l ! i) :: nat) =
          (if (of_char (s ! i) :: nat) \<in> {65..90} then of_char (s ! i) + 32 else of_char (s ! i)))"

definition white :: "char \<Rightarrow> bool" where
  "white c \<longleftrightarrow> c \<in> {CHR 0x09, CHR 0x0A, CHR 0x0B, CHR 0x0C, CHR 0x0D, CHR 0x20}"

definition trimmed :: "string \<Rightarrow> string \<Rightarrow> bool" where
  "trimmed l e \<longleftrightarrow>
     (\<exists>pre suf. l = pre @ e @ suf \<and> list_all white pre \<and> list_all white suf) \<and>
     (e \<noteq> [] \<longrightarrow> \<not> white (hd e) \<and> \<not> white (last e))"

section \<open>Properties of the helper functions\<close>

lemma str_includes_sublist: "str_includes s t \<longleftrightarrow> sublist t s"
  by (induction s) (auto simp: sublist_Cons_right)

lemma round_hundredth: "\<lfloor>(of_int a :: rat) / 100 + 1 / 2\<rfloor> = (a + 50) div 100"
proof -
  have "(of_int a :: rat) / 100 + 1 / 2 = of_int (a + 50) / of_int 100"
    by simp
  then show ?thesis
    by (simp only: floor_divide_of_int_eq)
qed

lemma get_opt_get: "get v name = Inr x \<Longrightarrow> opt_get v name = x"
  by (simp add: opt_get_def)

lemma amountInRupees_Num:
  assumes "opt_get payment ''amount'' = Num q"
  shows "amountInRupees rt payment = Inr rupees \<longleftrightarrow>
         rupees = Num (of_int \<lfloor>double_of (q / 100) + 1 / 2\<rfloor>)"
proof (cases "get payment ''amount''")
  case (Inl e)
  with assms show ?thesis
    by (simp add: opt_get_def)
next
  case (Inr v)
  with assms have "v = Num q"
    by (simp add: opt_get_def)
  with Inr show ?thesis
    by (auto simp: amountInRupees_def andThen_def Math_round_def div100_def)
qed

lemma toLowerCase_trim_Inr:
  "toLowerCase_trim rt path v = Inr w \<Longrightarrow> \<exists>s. v = Str s \<and> w = Str (trim rt (toLowerCase rt s))"
  by (cases v) (auto simp: andThen_def)

lemma registrationData_fields:
  assumes "registrationData rt payment rupees = Inr r"
  shows "\<exists>s. opt_get payment ''email'' = Str s \<and>
             user_email r = Str (trim rt (toLowerCase rt s)) \<and>
             event_id r = opt_get (opt_get payment ''notes'') ''event_id'' \<and>
             payment_id r = opt_get payment ''id'' \<and>
             amount r = rupees \<and> status r = ''success''"
proof -
  from assms obtain nts ev email normalized pid where
    g: "get payment ''notes'' = Inr nts" "get nts ''event_id'' = Inr ev"
       "get payment ''email'' = Inr email"
       "toLowerCase_trim rt ''payment.email'' email = Inr normalized"
       "get payment ''id'' = Inr pid" and
    r: "r = \<lparr>event_id = ev, user_email = normalized, amount = rupees,
             payment_id = pid, status = ''success''\<rparr>"
    unfolding registrationData_def andThen_def
    by (auto split: sum.splits)
  from g(4) obtain s where "email = Str s" "normalized = Str (trim rt (toLowerCase rt s))"
    using toLowerCase_trim_Inr by blast
  with g r show ?thesis
    by (simp add: get_opt_get)
qed

section \<open>Rounding to a double\<close>

text \<open>\<open>expo x\<close> is the exponent of the power of two at or below \<open>\<bar>x\<bar>\<close>.\<close>

lemma expo_bounds:
  assumes "x \<noteq> 0"
  shows "2 powi (expo x) \<le> \<bar>x\<bar> \<and> \<bar>x\<bar> < 2 powi (expo x + 1)"
proof (cases "1 \<le> \<bar>x\<bar>")
  case True
  define n where "n = \<lfloor>\<bar>x\<bar>\<rfloor>"
  have n: "0 < n" "of_int n \<le> \<bar>x\<bar>" "\<bar>x\<bar> < of_int (n + 1)"
    using True unfolding n_def by (auto simp: floor_less_iff) linarith+
  from bitlen_bounds [OF n(1)] have b: "2 ^ nat (bitlen n - 1) \<le> n" "n < 2 ^ nat (bitlen n)"
    by auto
  have pos: "0 < bitlen n"
    using n(1) bitlen_nonneg [of n] bitlen_eq_zero_iff [of n] by (cases "bitlen n = 0") auto
  have e: "expo x = bitlen n - 1"
    using True by (simp add: expo_def n_def)
  have "(2::rat) powi (bitlen n - 1) = of_int (2 ^ nat (bitlen n - 1))"
    using pos by (simp add: power_int_def)
  also have "\<dots> \<le> of_int n"
    using b(1) by (simp only: of_int_le_iff)
  finally have lo: "2 powi (expo x) \<le> \<bar>x\<bar>"
    using n(2) e by simp
  have "n + 1 \<le> 2 ^ nat (bitlen n)"
    using b(2) by simp
  then have "(of_int (n + 1) :: rat) \<le> of_int (2 ^ nat (bitlen n))"
    by (simp only: of_int_le_iff)
  also have "\<dots> = 2 powi (bitlen n)"
    using pos by (simp add: power_int_def)
  finally have "\<bar>x\<bar> < 2 powi (expo x + 1)"
    using n(3) e by simp
  with lo show ?thesis ..
next
  case False
  define y where "y = 1 / \<bar>x\<bar>"
  define m where "m = \<lceil>y\<rceil> - 1"
  have y: "1 < y"
    using False assms by (simp add: y_def)
  have m: "0 < m" "of_int m < y" "y \<le> of_int (m + 1)"
    using y unfolding m_def by (auto simp: less_ceiling_iff) linarith+
  from bitlen_bounds [OF m(1)] have b: "2 ^ nat (bitlen m - 1) \<le> m" "m < 2 ^ nat (bitlen m)"
    by auto
  have pos: "0 < bitlen m"
    using m(1) bitlen_nonneg [of m] bitlen_eq_zero_iff [of m] by (cases "bitlen m = 0") auto
  have e: "expo x = - bitlen m"
    using False by (simp add: expo_def m_def y_def)
  have x: "\<bar>x\<bar> = 1 / y" "0 < y"
    using assms y by (simp_all add: y_def)
  have "(2::rat) ^ nat (bitlen m - 1) \<le> of_int m"
    using b(1) by (metis of_int_le_iff of_int_numeral of_int_power)
  with m(2) have lo: "(2::rat) ^ nat (bitlen m - 1) < y"
    by linarith
  have "m + 1 \<le> 2 ^ nat (bitlen m)"
    using b(2) by simp
  then have "(of_int (m + 1) :: rat) \<le> 2 ^ nat (bitlen m)"
    by (metis of_int_le_iff of_int_numeral of_int_power)
  with m(3) have hi: "y \<le> (2::rat) ^ nat (bitlen m)"
    by linarith
  have p1: "(2::rat) powi (- bitlen m) = 1 / 2 ^ nat (bitlen m)"
    using pos by (simp add: power_int_def field_simps)
  have p2: "(2::rat) powi (- bitlen m + 1) = 1 / 2 ^ nat (bitlen m - 1)"
    using pos by (simp add: power_int_def field_simps nat_diff_distrib)
  have "1 / 2 ^ nat (bitlen m) \<le> 1 / y"
    using hi x(2) by (simp add: frac_le)
  moreover have "1 / y < 1 / (2::rat) ^ nat (bitlen m - 1)"
    using lo by (simp add: frac_less2)
  ultimately show ?thesis
    unfolding e p1 p2 x(1) by simp
qed

text \<open>
  The nearest double is within half a unit in the last place, and a multiple of that
  unit is its own nearest double.
\<close>

lemma round_half_even_error: "\<bar>of_int (round_half_even y) - y\<bar> \<le> 1 / 2"
proof -
  define d where "d = y - of_int \<lfloor>y\<rfloor>"
  have d: "0 \<le> d" "d < 1"
    unfolding d_def by linarith+
  have y: "of_int \<lfloor>y\<rfloor> - y = - d" "of_int (\<lfloor>y\<rfloor> + 1) - y = 1 - d"
    by (simp_all add: d_def)
  consider "d < 1 / 2" | "1 / 2 < d" | "d = 1 / 2"
    by linarith
  then show ?thesis
  proof cases
    case 1
    then have "round_half_even y = \<lfloor>y\<rfloor>"
      by (simp add: round_half_even_def d_def)
    with 1 d y(1) show ?thesis by simp
  next
    case 2
    then have "round_half_even y = \<lfloor>y\<rfloor> + 1"
      by (simp add: round_half_even_def d_def)
    with 2 d y(2) show ?thesis by (simp only: abs_if) simp
  next
    case 3
    then have "round_half_even y = \<lfloor>y\<rfloor> \<or> round_half_even y = \<lfloor>y\<rfloor> + 1"
      by (simp add: round_half_even_def d_def Let_def)
    with 3 y show ?thesis by (auto simp only: abs_if) simp_all
  qed
qed

lemma round_half_even_of_int: "round_half_even (of_int k) = k"
  by (simp add: round_half_even_def)

lemma ulp_pos: "0 < ulp x"
  by (simp add: ulp_def)

lemma double_of_error: "\<bar>double_of x - x\<bar> \<le> ulp x / 2"
proof (cases "x = 0")
  case True
  then show ?thesis
    using ulp_pos [of x] by (simp add: double_of_def)
next
  case False
  define R :: rat where "R = of_int (round_half_even (x / ulp x))"
  have "(R - x / ulp x) * ulp x = R * ulp x - x"
    using ulp_pos [of x] by (simp add: field_simps)
  then have "\<bar>R * ulp x - x\<bar> = \<bar>R - x / ulp x\<bar> * ulp x"
    using ulp_pos [of x] by (metis abs_mult abs_of_pos)
  also have "\<dots> \<le> 1 / 2 * ulp x"
    using round_half_even_error [of "x / ulp x"] ulp_pos [of x]
    unfolding R_def by (intro mult_right_mono) simp_all
  finally show ?thesis
    using False by (simp add: double_of_def R_def)
qed

lemma double_of_exact:
  assumes "x / ulp x = of_int k"
  shows "double_of x = x"
proof (cases "x = 0")
  case True
  then show ?thesis by (simp add: double_of_def)
next
  case False
  have "x = of_int k * ulp x"
    using assms ulp_pos [of x] by (simp add: field_simps)
  moreover have "round_half_even (x / ulp x) = k"
    unfolding assms by (rule round_half_even_of_int)
  ultimately show ?thesis
    using False by (simp add: double_of_def)
qed

text \<open>
  Below \<open>2^47\<close> the doubles are at most \<open>1/64\<close> apart. The quotient by 100 of an
  integer of magnitude at most \<open>2^53\<close> lies there; it is a half-integer, which is a
  double, or at least \<open>1/100\<close> away from every half-integer, which is more than the
  rounding error. So rounding the quotient to a double does not change what
  \<^verbatim>\<open>Math.round\<close> makes of it.
\<close>

lemma small_ulp:
  assumes "x \<noteq> 0" and "\<bar>x\<bar> < 2 ^ 47"
  shows "\<exists>n\<ge>6. ulp x = 1 / 2 ^ n"
proof -
  from expo_bounds [OF assms(1)] assms(2) have "(2::rat) powi expo x < 2 powi 47"
    by simp
  have "expo x < 47"
  proof (rule ccontr)
    assume "\<not> expo x < 47"
    then have "(2::rat) powi 47 \<le> 2 powi expo x"
      by (intro power_int_increasing) simp_all
    with \<open>(2::rat) powi expo x < 2 powi 47\<close> show False
      by simp
  qed
  then have neg: "max (expo x - 52) (- 1074) \<le> - 6"
    by simp
  define n where "n = nat (- max (expo x - 52) (- 1074))"
  have "6 \<le> n"
    using neg by (simp add: n_def)
  moreover have "ulp x = 1 / 2 ^ n"
    using neg unfolding ulp_def n_def power_int_def by (simp add: field_simps)
  ultimately show ?thesis by blast
qed

lemma round_hundredth_double:
  assumes "\<bar>a\<bar> \<le> 2 ^ 53"
  shows "\<lfloor>double_of (of_int a / 100) + 1 / 2\<rfloor> = (a + 50) div 100"
proof (cases "a = 0")
  case True
  then show ?thesis
    by (simp add: double_of_def floor_eq_iff)
next
  case False
  define x :: rat where "x = of_int a / 100"
  define k where "k = (a + 50) div 100"
  define r where "r = (a + 50) mod 100"
  have r: "0 \<le> r" "r < 100" and a: "a + 50 = 100 * k + r"
    by (simp_all add: k_def r_def)
  have xk: "x + 1 / 2 = of_int k + of_int r / 100"
  proof -
    have "x + 1 / 2 = of_int (a + 50) / 100"
      by (simp add: x_def)
    also have "\<dots> = of_int k + of_int r / 100"
      unfolding a by simp
    finally show ?thesis .
  qed
  have x0: "x \<noteq> 0"
    using False by (simp add: x_def)
  have "\<bar>x\<bar> = of_int \<bar>a\<bar> / 100"
    by (simp add: x_def)
  also have "\<dots> \<le> of_int (2 ^ 53) / 100"
  proof -
    have "(of_int \<bar>a\<bar> :: rat) \<le> of_int (2 ^ 53)"
      using assms by (simp only: of_int_le_iff)
    then show ?thesis
      by (rule divide_right_mono) simp
  qed
  also have "\<dots> < 2 ^ 47"
    by simp
  finally have small: "\<bar>x\<bar> < 2 ^ 47" .
  from small_ulp [OF x0 small] obtain n where n: "6 \<le> n" "ulp x = 1 / 2 ^ n"
    by blast
  have "(2::rat) ^ 6 \<le> 2 ^ n"
    using n(1) by (intro power_increasing) simp_all
  then have u: "ulp x \<le> 1 / 64"
    unfolding n(2) by (simp add: field_simps)
  show ?thesis
  proof (cases "r = 0")
    case True
    obtain j where j: "n = Suc j"
      using n(1) by (cases n) auto
    have "x = of_int (2 * k - 1) / 2"
      using xk True by (simp add: field_simps)
    then have "x / ulp x = of_int ((2 * k - 1) * 2 ^ j)"
      unfolding n(2) j by simp
    then have "double_of x = x"
      by (rule double_of_exact)
    then have "double_of x + 1 / 2 = of_int k"
      using xk True by simp
    then show ?thesis
      unfolding x_def [symmetric] k_def [symmetric] by simp
  next
    case False
    with r have "1 \<le> r" "r \<le> 99"
      by simp_all
    then have "(1::rat) \<le> of_int r" "(of_int r :: rat) \<le> 99"
      by (simp_all only: of_int_le_iff [symmetric, where 'a = rat] of_int_1 of_int_numeral)
    then have b: "of_int k + 1 / 100 \<le> x + 1 / 2" "x + 1 / 2 \<le> of_int k + 99 / 100"
      unfolding xk by simp_all
    from double_of_error [of x] u have "\<bar>double_of x - x\<bar> \<le> 1 / 128"
      by linarith
    then have "double_of x - x \<le> 1 / 128" "x - double_of x \<le> 1 / 128"
      by (simp_all only: abs_le_iff minus_diff_eq)
    with b have "of_int k \<le> double_of x + 1 / 2" "double_of x + 1 / 2 < of_int k + 1"
      by linarith+
    then have "\<lfloor>double_of x + 1 / 2\<rfloor> = k"
      by (simp add: floor_eq_iff)
    then show ?thesis
      unfolding x_def k_def .
  qed
qed

text \<open>
  Beyond that range the doubles are further apart, and the rounded quotient can be a
  half-integer where the exact one is not: \<open>36028797018964048\<close> is a double, its
  hundredth is \<open>360287970189640.48\<close>, the nearest double is \<open>360287970189640.5\<close>.
\<close>

lemma large_double: "double_of 36028797018964048 = 36028797018964048"
  by code_simp

lemma large_quotient: "double_of (36028797018964048 / 100) = 720575940379281 / 2"
  by code_simp

lemma large_rounded: "\<lfloor>double_of (36028797018964048 / 100) + 1 / 2\<rfloor> = 360287970189641"
  unfolding large_quotient by (simp add: floor_eq_iff)

lemma double_of_0: "double_of 0 = 0"
  by (simp add: double_of_def)

section \<open>Requests that reach the insert\<close>

lemma handler_try_insertD:
  assumes ins: "Insert t rows \<in> set (snd (handler_try rt env cc req))"
  shows "\<exists>supabase payment rupees registration.
           env_truthy (SUPABASE_URL env) \<and> env_truthy (SUPABASE_SERVICE_ROLE_KEY env) \<and>
           cc (SUPABASE_URL env) (SUPABASE_SERVICE_ROLE_KEY env) = Inr supabase \<and>
           get (req_body req) ''event'' = Inr (Str ''payment.captured'') \<and>
           get (req_body req) ''payment'' = Inr payment \<and>
           missingFields payment = [] \<and>
           amountInRupees rt payment = Inr rupees \<and>
           registrationData rt payment rupees = Inr registration \<and>
           t = ''eventsregistrations'' \<and> rows = [registration] \<and>
           handler_try rt env cc req =
             (case from_insert_select supabase t rows of
                Inl e \<Rightarrow> Inl e
              | Inr r \<Rightarrow> after_insert rt payment rupees r,
              [CreateClient (SUPABASE_URL env) (SUPABASE_SERVICE_ROLE_KEY env), Insert t rows])"
proof -
  let ?url = "SUPABASE_URL env" and ?key = "SUPABASE_SERVICE_ROLE_KEY env"
  have cfg: "env_truthy ?url \<and> env_truthy ?key"
    using ins by (auto simp: handler_try_def Let_def split: if_splits)
  obtain supabase where cl: "cc ?url ?key = Inr supabase"
    using ins cfg by (cases "cc ?url ?key") (auto simp: handler_try_def Let_def)
  obtain event where ev: "get (req_body req) ''event'' = Inr event"
    using ins cfg cl by (cases "get (req_body req) ''event''") (auto simp: handler_try_def Let_def)
  have cap: "event = Str ''payment.captured''"
    using ins cfg cl ev by (auto simp: handler_try_def Let_def split: if_splits sum.splits)
  obtain payment where pay: "get (req_body req) ''payment'' = Inr payment"
    using ins cfg cl ev cap
    by (cases "get (req_body req) ''payment''") (auto simp: handler_try_def Let_def)
  have mf: "missingFields payment = []"
    using ins cfg cl ev cap pay by (auto simp: handler_try_def Let_def split: if_splits)
  obtain rupees where rup: "amountInRupees rt payment = Inr rupees"
    using ins cfg cl ev cap pay mf
    by (cases "amountInRupees rt payment") (auto simp: handler_try_def Let_def)
  obtain registration where reg: "registrationData rt payment rupees = Inr registration"
    using ins cfg cl ev cap pay mf rup
    by (cases "registrationData rt payment rupees") (auto simp: handler_try_def Let_def)
  have run: "handler_try rt env cc req =
      (case from_insert_select supabase ''eventsregistrations'' [registration] of
         Inl e \<Rightarrow> Inl e
       | Inr r \<Rightarrow> after_insert rt payment rupees r,
       [CreateClient ?url ?key, Insert ''eventsregistrations'' [registration]])"
    using cfg cl ev cap pay mf rup reg
    by (simp add: handler_try_def Let_def split: sum.splits)
  have "t = ''eventsregistrations'' \<and> rows = [registration]"
    using ins unfolding run by simp
  with cfg cl ev cap pay mf rup reg run show ?thesis by blast
qed

lemma handler_calls: "req_method req = Some ''POST'' \<Longrightarrow>
    snd (handler rt env cc req) = snd (handler_try rt env cc req)"
  by (simp add: handler_def split: prod.splits sum.splits)

lemma handler_not_post_calls: "req_method req \<noteq> Some ''POST'' \<Longrightarrow> snd (handler rt env cc req) = []"
  by (simp add: handler_def)

lemma handler_response: "req_method req = Some ''POST'' \<Longrightarrow>
    fst (handler rt env cc req) =
      (case fst (handler_try rt env cc req) of Inl e \<Rightarrow> catch_response e | Inr res \<Rightarrow> res)"
  by (simp add: handler_def split: prod.splits sum.splits)

text \<open>
  A request whose handling issues an insert has passed every gate: the method is
  \<^verbatim>\<open>POST\<close>, both credentials are set, the client was created, the event is
  \<^verbatim>\<open>payment.captured\<close>, no field is reported missing, and the record was built.
  The insert is the second and last call, and the answer is decided by its result.
\<close>

lemma handler_insertD:
  assumes ins: "Insert t rows \<in> set (snd (handler rt env cc req))"
  shows "\<exists>supabase payment rupees registration.
           req_method req = Some ''POST'' \<and>
           cc (SUPABASE_URL env) (SUPABASE_SERVICE_ROLE_KEY env) = Inr supabase \<and>
           opt_get (req_body req) ''payment'' = payment \<and>
           missingFields payment = [] \<and>
           amountInRupees rt payment = Inr rupees \<and>
           registrationData rt payment rupees = Inr registration \<and>
           t = ''eventsregistrations'' \<and> rows = [registration] \<and>
           snd (handler rt env cc req) =
             [CreateClient (SUPABASE_URL env) (SUPABASE_SERVICE_ROLE_KEY env), Insert t rows] \<and>
           fst (handler rt env cc req) =
             (case from_insert_select supabase t rows of
                Inl e \<Rightarrow> catch_response e
              | Inr r \<Rightarrow> (case after_insert rt payment rupees r of
                           Inl e \<Rightarrow> catch_response e | Inr res \<Rightarrow> res))"
proof -
  have post: "req_method req = Some ''POST''"
    using ins handler_not_post_calls [of req rt env cc] by (cases "req_method req = Some ''POST''") auto
  with ins have "Insert t rows \<in> set (snd (handler_try rt env cc req))"
    by (simp add: handler_calls)
  from handler_try_insertD [OF this] obtain supabase payment rupees registration where
    h: "cc (SUPABASE_URL env) (SUPABASE_SERVICE_ROLE_KEY env) = Inr supabase"
       "get (req_body req) ''payment'' = Inr payment"
       "missingFields payment = []"
       "amountInRupees rt payment = Inr rupees"
       "registrationData rt payment rupees = Inr registration"
       "t = ''eventsregistrations''" "rows = [registration]" and
    run: "handler_try rt env cc req =
             (case from_insert_select supabase t rows of
                Inl e \<Rightarrow> Inl e
              | Inr r \<Rightarrow> after_insert rt payment rupees r,
              [CreateClient (SUPABASE_URL env) (SUPABASE_SERVICE_ROLE_KEY env), Insert t rows])"
    by blast
  have "snd (handler rt env cc req) =
          [CreateClient (SUPABASE_URL env) (SUPABASE_SERVICE_ROLE_KEY env), Insert t rows]"
    using post run by (simp add: handler_calls)
  moreover have "fst (handler rt env cc req) =
             (case from_insert_select supabase t rows of
                Inl e \<Rightarrow> catch_response e
              | Inr r \<Rightarrow> (case after_insert rt payment rupees r of
                           Inl e \<Rightarrow> catch_response e | Inr res \<Rightarrow> res))"
    using post run by (simp add: handler_response split: sum.splits)
  ultimately show ?thesis
    using post h by (simp add: get_opt_get)
qed

lemma registrationData_id:
  "registrationData rt payment rupees = Inr r \<Longrightarrow> get payment ''id'' = Inr (payment_id r)"
  unfolding registrationData_def andThen_def
  by (auto split: sum.splits)

section \<open>The handler on the sample notification\<close>

lemma normalise_sample_email:
  "trim rt (toLowerCase rt ''  User@Example.COM '') = ''user@example.com''"
proof -
  have "map lower_char ''  User@Example.COM '' = ''  user@example.com ''"
    by code_simp
  moreover have "ascii ''  User@Example.COM ''" "ascii ''  user@example.com ''"
    by (simp_all add: ascii_def)
  moreover have "rev (dropWhile is_space (rev (dropWhile is_space ''  user@example.com ''))) =
      ''user@example.com''"
    by code_simp
  ultimately show ?thesis
    by (simp add: toLowerCase_def trim_def)
qed

lemma sample_notification_runs:
  "handler sample_runtime configured (resolving r)
     (notification (sample_payment (Str ''  User@Example.COM '') (Num q))) =
   (case after_insert sample_runtime (sample_payment (Str ''  User@Example.COM '') (Num q))
           (Num (of_int \<lfloor>double_of (q / 100) + 1 / 2\<rfloor>)) r of
      Inl e \<Rightarrow> catch_response e | Inr res \<Rightarrow> res,
    [CreateClient (Some ''https://project.supabase.co'') (Some ''service-role-key''),
     Insert ''eventsregistrations''
       [\<lparr>event_id = Str ''event_a'', user_email = Str ''user@example.com'',
         amount = Num (of_int \<lfloor>double_of (q / 100) + 1 / 2\<rfloor>), payment_id = Str ''pay_1'',
         status = ''success''\<rparr>]])"
  by (simp add: handler_def handler_try_def registrationData_def amountInRupees_def
      missingFields_def opt_get_def andThen_def Math_round_def div100_def Let_def
      configured_def resolving_def notification_def sample_payment_def
      normalise_sample_email split: sum.splits)

lemma sample_rounded:
  "\<lfloor>double_of (150 / 100) + 1 / 2\<rfloor> = 2" "\<lfloor>double_of (12345 / 100) + 1 / 2\<rfloor> = 123"
  using round_hundredth_double [of 150] round_hundredth_double [of 12345] by simp_all

section \<open>The validation\<close>

lemma truthy_falsy: "truthy v \<longleftrightarrow> v \<notin> falsy"
  by (cases v) (auto simp: falsy_def)

lemma typeof_number: "typeof v = ''number'' \<longleftrightarrow> is_number v"
  by (cases v) auto

lemma get_of_defined: "get v n = Inr x \<Longrightarrow> get v m = Inr (opt_get v m)"
  by (cases v) (auto simp: opt_get_def)

lemma opt_get_undefined: "v = Undefined \<or> v = Null \<Longrightarrow> opt_get v n = Undefined"
  by (auto simp: opt_get_def)

lemma missingFields_falsy:
  "missingFields payment =
     (if opt_get payment ''id'' \<in> falsy then [''payment.id''] else []) @
     (if opt_get payment ''email'' \<in> falsy then [''payment.email''] else []) @
     (if is_number (opt_get payment ''amount'') then [] else [''payment.amount'']) @
     (if opt_get (opt_get payment ''notes'') ''event_id'' \<in> falsy
      then [''payment.notes.event_id''] else [])"
  unfolding missingFields_def truthy_falsy typeof_number by simp

text \<open>
  Where each of the three string fields is a string or is absent, the handler's list is
  the one the specification asks for; they part on a truthy value of another type.
\<close>

lemma nonempty_string_truthy:
  "v = Undefined \<or> v = Null \<or> (\<exists>s. v = Str s) \<Longrightarrow> nonempty_string v \<longleftrightarrow> truthy v"
  by auto

lemma missingFields_meets_spec:
  assumes "\<forall>v \<in> {opt_get payment ''id'', opt_get payment ''email'',
                  opt_get (opt_get payment ''notes'') ''event_id''}.
             v = Undefined \<or> v = Null \<or> (\<exists>s. v = Str s)"
  shows "missingFields payment = spec_missing_fields payment"
  using assms
  by (simp add: missingFields_def spec_missing_fields_def typeof_number nonempty_string_truthy)

text \<open>A notification that has an event and a payment reaches the validation.\<close>

lemma handler_validates:
  assumes "req_method req = Some ''POST''"
      and "env_truthy (SUPABASE_URL env)" and "env_truthy (SUPABASE_SERVICE_ROLE_KEY env)"
      and "cc (SUPABASE_URL env) (SUPABASE_SERVICE_ROLE_KEY env) = Inr supabase"
      and "get (req_body req) ''event'' = Inr (Str ''payment.captured'')"
      and "missingFields (opt_get (req_body req) ''payment'') \<noteq> []"
  shows "handler rt env cc req =
           (\<lparr>res_status = 400, res_headers = cors,
             res_body = Some (Obj [(''error'', Str ''Missing required payment data''),
               (''missing_fields'', Arr (map Str (missingFields (opt_get (req_body req) ''payment'')))),
               (''received_data'', received_data (opt_get (req_body req) ''payment''))])\<rparr>,
            [CreateClient (SUPABASE_URL env) (SUPABASE_SERVICE_ROLE_KEY env)])"
proof -
  from assms(5) have "get (req_body req) ''payment'' = Inr (opt_get (req_body req) ''payment'')"
    by (rule get_of_defined)
  with assms show ?thesis
    by (simp add: handler_def handler_try_def json_def Let_def)
qed

text \<open>
  Conversely, a valid notification in a configured deployment reaches the insert: the
  method is \<^verbatim>\<open>POST\<close>, the credentials are set, the client is created, the event is
  \<^verbatim>\<open>payment.captured\<close>, the id and the event id are truthy, the email is a
  non-empty string and the amount is a number.
\<close>

lemma valid_notification_inserts:
  assumes "req_method req = Some ''POST''"
      and "env_truthy (SUPABASE_URL env)" and "env_truthy (SUPABASE_SERVICE_ROLE_KEY env)"
      and "cc (SUPABASE_URL env) (SUPABASE_SERVICE_ROLE_KEY env) = Inr supabase"
      and "get (req_body req) ''event'' = Inr (Str ''payment.captured'')"
      and "payment = opt_get (req_body req) ''payment''"
      and "opt_get payment ''amount'' = Num q"
      and "truthy (opt_get payment ''id'')"
      and "opt_get payment ''email'' = Str email" and "email \<noteq> []"
      and "truthy (opt_get (opt_get payment ''notes'') ''event_id'')"
  shows "missingFields payment = []"
    and "snd (handler rt env cc req) =
           [CreateClient (SUPABASE_URL env) (SUPABASE_SERVICE_ROLE_KEY env),
            Insert ''eventsregistrations''
              [\<lparr>event_id = opt_get (opt_get payment ''notes'') ''event_id'',
                user_email = Str (trim rt (toLowerCase rt email)),
                amount = Num (of_int \<lfloor>double_of (q / 100) + 1 / 2\<rfloor>),
                payment_id = opt_get payment ''id'',
                status = ''success''\<rparr>]]"
proof -
  let ?nts = "opt_get payment ''notes''"
  from assms(5) have pay: "get (req_body req) ''payment'' = Inr payment"
    unfolding assms(6) by (rule get_of_defined)
  have "get payment ''email'' = Inr (Str email)"
    using assms(9) by (cases payment) (auto simp: opt_get_def)
  then have reads: "get payment ''id'' = Inr (opt_get payment ''id'')"
      "get payment ''email'' = Inr (Str email)"
      "get payment ''amount'' = Inr (Num q)"
      "get payment ''notes'' = Inr ?nts"
    using assms(7,9) get_of_defined [of payment "''email''" "Str email"] by simp_all
  have "get ?nts ''event_id'' = Inr (opt_get ?nts ''event_id'')"
    using assms(11) by (cases ?nts) (auto simp: opt_get_def)
  note reads = reads this
  show mf: "missingFields payment = []"
    using assms(7-11) by (simp add: missingFields_def)
  have rupees: "amountInRupees rt payment = Inr (Num (of_int \<lfloor>double_of (q / 100) + 1 / 2\<rfloor>))"
    using reads by (simp add: amountInRupees_def andThen_def Math_round_def div100_def)
  have reg: "registrationData rt payment (Num (of_int \<lfloor>double_of (q / 100) + 1 / 2\<rfloor>)) =
      Inr \<lparr>event_id = opt_get ?nts ''event_id'', user_email = Str (trim rt (toLowerCase rt email)),
           amount = Num (of_int \<lfloor>double_of (q / 100) + 1 / 2\<rfloor>), payment_id = opt_get payment ''id'',
           status = ''success''\<rparr>"
    using reads by (simp add: registrationData_def andThen_def)
  have "snd (handler_try rt env cc req) =
      [CreateClient (SUPABASE_URL env) (SUPABASE_SERVICE_ROLE_KEY env),
       Insert ''eventsregistrations''
         [\<lparr>event_id = opt_get ?nts ''event_id'', user_email = Str (trim rt (toLowerCase rt email)),
           amount = Num (of_int \<lfloor>double_of (q / 100) + 1 / 2\<rfloor>), payment_id = opt_get payment ''id'',
           status = ''success''\<rparr>]]"
    using assms(2-5) pay mf rupees reg
    by (simp add: handler_try_def Let_def split: sum.splits)
  then show "snd (handler rt env cc req) =
           [CreateClient (SUPABASE_URL env) (SUPABASE_SERVICE_ROLE_KEY env),
            Insert ''eventsregistrations''
              [\<lparr>event_id = opt_get (opt_get payment ''notes'') ''event_id'',
                user_email = Str (trim rt (toLowerCase rt email)),
                amount = Num (of_int \<lfloor>double_of (q / 100) + 1 / 2\<rfloor>),
                payment_id = opt_get payment ''id'',
                status = ''success''\<rparr>]]"
    using assms(1) by (simp add: handler_calls)
qed

section \<open>The string methods\<close>

text \<open>
  On an ASCII string the two methods do what \<open>lower_cased\<close> and \<open>trimmed\<close> say,
  and lower-casing keeps the string ASCII.
\<close>

lemma of_char_lower_char:
  "(of_char (lower_char c) :: nat) =
     (if (of_char c :: nat) \<in> {65..90} then of_char c + 32 else of_char c)"
  by (auto simp: lower_char_def Let_def)

lemma toLowerCase_lower_cased:
  assumes "ascii s"
  shows "lower_cased s (toLowerCase rt s)"
  using assms by (simp add: lower_cased_def toLowerCase_def of_char_lower_char)

lemma toLowerCase_ascii:
  assumes "ascii s"
  shows "ascii (toLowerCase rt s)"
proof -
  have "(of_char (lower_char c) :: nat) < 128" if "(of_char c :: nat) < 128" for c
    using that unfolding of_char_lower_char by (simp split: if_splits)
  with assms show ?thesis
    by (simp add: toLowerCase_def ascii_def list_all_iff)
qed

lemma char_eq_code: "c = char_of n \<longleftrightarrow> (of_char c :: nat) = n" if "n < 256" for n :: nat
proof
  assume "c = char_of n"
  with that show "of_char c = n" by simp
next
  assume "(of_char c :: nat) = n"
  then have "char_of (of_char c :: nat) = (char_of n :: char)" by simp
  then show "c = char_of n" by simp
qed

lemma is_space_white: "is_space c \<longleftrightarrow> white c"
proof -
  have chr: "CHR 0x09 = char_of (9::nat)" "CHR 0x0A = char_of (10::nat)"
       "CHR 0x0B = char_of (11::nat)" "CHR 0x0C = char_of (12::nat)"
       "CHR 0x0D = char_of (13::nat)" "CHR 0x20 = char_of (32::nat)"
    by code_simp+
  have "c = CHR 0x09 \<longleftrightarrow> (of_char c :: nat) = 9"
    unfolding chr by (rule char_eq_code) simp
  moreover have "c = CHR 0x0A \<longleftrightarrow> (of_char c :: nat) = 10"
    unfolding chr by (rule char_eq_code) simp
  moreover have "c = CHR 0x0B \<longleftrightarrow> (of_char c :: nat) = 11"
    unfolding chr by (rule char_eq_code) simp
  moreover have "c = CHR 0x0C \<longleftrightarrow> (of_char c :: nat) = 12"
    unfolding chr by (rule char_eq_code) simp
  moreover have "c = CHR 0x0D \<longleftrightarrow> (of_char c :: nat) = 13"
    unfolding chr by (rule char_eq_code) simp
  moreover have "c = CHR 0x20 \<longleftrightarrow> (of_char c :: nat) = 32"
    unfolding chr by (rule char_eq_code) simp
  ultimately show ?thesis
    unfolding white_def is_space_def by (simp only: insert_iff empty_iff)
qed

lemma trim_trimmed:
  assumes "ascii l"
  shows "trimmed l (trim rt l)"
proof -
  let ?ys = "dropWhile is_space l"
  let ?zs = "dropWhile is_space (rev ?ys)"
  let ?e = "rev ?zs"
  have e: "trim rt l = ?e"
    using assms by (simp add: trim_def)
  have "rev ?ys = takeWhile is_space (rev ?ys) @ ?zs"
    by simp
  then have ys: "?ys = ?e @ rev (takeWhile is_space (rev ?ys))"
    by (metis rev_append rev_rev_ident)
  have "l = takeWhile is_space l @ ?ys"
    by simp
  with ys have "l = takeWhile is_space l @ ?e @ rev (takeWhile is_space (rev ?ys))"
    by simp
  moreover have "list_all white (takeWhile is_space l)"
    by (auto simp: list_all_iff is_space_white [symmetric] dest: set_takeWhileD)
  moreover have "list_all white (rev (takeWhile is_space (rev ?ys)))"
    by (auto simp: list_all_iff is_space_white [symmetric] dest: set_takeWhileD)
  ultimately have parts: "\<exists>pre suf. l = pre @ ?e @ suf \<and> list_all white pre \<and> list_all white suf"
    by blast
  have ends: "\<not> white (hd ?e) \<and> \<not> white (last ?e)" if ne: "?e \<noteq> []"
  proof -
    from ne have zs: "?zs \<noteq> []"
      by simp
    then have "\<not> is_space (hd ?zs)"
      by (rule hd_dropWhile)
    then have l: "\<not> is_space (last ?e)"
      using zs by (simp add: last_rev)
    have "?ys \<noteq> []"
    proof
      assume "?ys = []"
      then have "?zs = []"
        by (simp only: rev.simps dropWhile.simps)
      with zs show False
        by simp
    qed
    then have h: "\<not> is_space (hd ?ys)"
      by (rule hd_dropWhile)
    from ys ne have "hd ?ys = hd ?e"
      by (metis hd_append2)
    with h l show ?thesis
      by (simp add: is_space_white)
  qed
  from parts ends show ?thesis
    unfolding trimmed_def e by blast
qed

lemma normalised_email_ascii:
  assumes "ascii s"
  shows "\<exists>l. lower_cased s l \<and> trimmed l (trim rt (toLowerCase rt s))"
  using toLowerCase_lower_cased [OF assms] trim_trimmed [OF toLowerCase_ascii [OF assms]]
  by blast

section \<open>Where the variant handler differs\<close>

text \<open>
  The variant answers a uniqueness violation like any other store error, with 500; it
  stores the quotient of the amount by 100, not rounded to an integer, and the email as
  received; and it answers \<^verbatim>\<open>OPTIONS\<close> with 405.
\<close>

lemma variant_sample_run:
  "variant_handler sample_runtime configured (resolving r)
     (notification (sample_payment (Str ''  User@Example.COM '') (Num 12345))) =
   (case variant_after_insert r of Inl e \<Rightarrow> variant_catch_response e | Inr res \<Rightarrow> res,
    [CreateClient (Some ''https://project.supabase.co'') (Some ''service-role-key''),
     Insert ''eventsregistrations''
       [\<lparr>event_id = Str ''event_a'', user_email = Str ''  User@Example.COM '',
         amount = Num (double_of (12345 / 100)), payment_id = Str ''pay_1'',
         status = ''success''\<rparr>]])"
  by (simp add: variant_handler_def variant_try_def variant_invalid_def
      variant_registrationData_def opt_get_def andThen_def div100_def Let_def
      configured_def resolving_def notification_def sample_payment_def split: sum.splits)

lemma variant_duplicate_is_500:
  "res_status (fst (variant_handler sample_runtime configured (resolving duplicate_key)
     (notification (sample_payment (Str ''  User@Example.COM '') (Num 12345))))) = 500"
  by (simp add: variant_sample_run variant_after_insert_def duplicate_key_def json_def)

lemma variant_options_is_405:
  "res_status (fst (variant_handler rt env cc \<lparr>req_method = Some ''OPTIONS'', req_body = b\<rparr>)) = 405"
  by (simp add: variant_handler_def json_def)

lemma variant_no_row_is_500:
  "res_status (fst (variant_handler sample_runtime configured (resolving no_rows)
     (notification (sample_payment (Str ''  User@Example.COM '') (Num 12345))))) = 500"
  by (simp add: variant_sample_run variant_after_insert_def no_rows_def json_def
      andThen_def variant_catch_response_def)

section \<open>The claims\<close>

text \<open>
  C1. A request that has passed the method gate, the event filter and the validation
  reaches the insert. When that insert resolves to an error whose code is
  \<^verbatim>\<open>23505\<close> and whose message contains \<^verbatim>\<open>payment_id\<close>, the handler answers 200
  with \<^verbatim>\<open>duplicate: true\<close> and the payment id of the notification, not an error
  status.
\<close>

theorem duplicate_payment_acknowledged:
  assumes "Insert t rows \<in> set (snd (handler rt env cc req))"
      and "cc (SUPABASE_URL env) (SUPABASE_SERVICE_ROLE_KEY env) = Inr supabase"
      and "from_insert_select supabase t rows = Inr r"
      and "error r = Some err"
      and "code err = ''23505''"
      and "sublist ''payment_id'' (message err)"
  shows "fst (handler rt env cc req) =
           \<lparr>res_status = 200, res_headers = cors,
            res_body = Some (Obj [(''message'', Str ''Payment already processed''),
                                  (''payment_id'', opt_get (opt_get (req_body req) ''payment'') ''id''),
                                  (''duplicate'', Bool True)])\<rparr>"
proof -
  from handler_insertD [OF assms(1)] obtain supabase' rupees registration where
    h: "cc (SUPABASE_URL env) (SUPABASE_SERVICE_ROLE_KEY env) = Inr supabase'"
       "registrationData rt (opt_get (req_body req) ''payment'') rupees = Inr registration" and
    res: "fst (handler rt env cc req) =
             (case from_insert_select supabase' t rows of
                Inl e \<Rightarrow> catch_response e
              | Inr r \<Rightarrow> (case after_insert rt (opt_get (req_body req) ''payment'') rupees r of
                           Inl e \<Rightarrow> catch_response e | Inr res \<Rightarrow> res))"
    by blast
  from h(1) assms(2) have same: "supabase' = supabase"
    by simp
  from registrationData_id [OF h(2)] obtain pid where
    pid: "get (opt_get (req_body req) ''payment'') ''id'' = Inr pid"
    by blast
  have "after_insert rt (opt_get (req_body req) ''payment'') rupees r =
          Inr (json cors 200 (Obj [(''message'', Str ''Payment already processed''),
                                   (''payment_id'', pid), (''duplicate'', Bool True)]))"
    using assms(4-6) pid
    by (simp add: after_insert_def andThen_def str_includes_sublist)
  with res same assms(3) pid show ?thesis
    by (simp add: json_def get_opt_get)
qed

theorem duplicate_payment_acknowledged_witness:
  "fst (handler sample_runtime configured (resolving duplicate_key)
          (notification (sample_payment (Str ''  User@Example.COM '') (Num 12345)))) =
     \<lparr>res_status = 200, res_headers = cors,
      res_body = Some (Obj [(''message'', Str ''Payment already processed''),
                            (''payment_id'', Str ''pay_1''),
                            (''duplicate'', Bool True)])\<rparr>"
proof -
  let ?req = "notification (sample_payment (Str ''  User@Example.COM '') (Num 12345))"
  let ?row = "\<lparr>event_id = Str ''event_a'', user_email = Str ''user@example.com'',
                amount = Num 123, payment_id = Str ''pay_1'',
                status = ''success''\<rparr>"
  have 1: "Insert ''eventsregistrations'' [?row]
             \<in> set (snd (handler sample_runtime configured (resolving duplicate_key) ?req))"
    using sample_notification_runs [of duplicate_key 12345] sample_rounded by simp
  have 2: "resolving duplicate_key (SUPABASE_URL configured) (SUPABASE_SERVICE_ROLE_KEY configured)
             = Inr (Client (\<lambda>table rows. Inr duplicate_key))"
    by (simp add: resolving_def)
  have 3: "from_insert_select (Client (\<lambda>table rows. Inr duplicate_key)) ''eventsregistrations'' [?row]
             = Inr duplicate_key"
    by simp
  have 4: "error duplicate_key =
             Some \<lparr>message = ''duplicate key value violates unique constraint eventsregistrations_payment_id_key'',
                   details = ''Key (payment_id)=(pay_1) already exists.'', hint = [], code = ''23505''\<rparr>"
    by (simp add: duplicate_key_def)
  have 5: "sublist ''payment_id''
             ''duplicate key value violates unique constraint eventsregistrations_payment_id_key''"
    unfolding str_includes_sublist [symmetric] by code_simp
  from duplicate_payment_acknowledged [OF 1 2 3 4 _ _] 5 show ?thesis
    by (simp add: notification_def sample_payment_def opt_get_def)
qed

text \<open>
  C2. The quotient by 100 is a double: beyond the integers the number type holds
  exactly, it can be rounded onto a half-integer. The amount \<open>36028797018964048\<close>, a
  double, is stored as \<open>360287970189641\<close>, while \<open>36028797018964048 / 100\<close> rounded
  to the nearest integer is \<open>360287970189640\<close>.
\<close>

theorem large_amount_not_rounded_to_nearest:
  "double_of 36028797018964048 = 36028797018964048 \<and>
   round (36028797018964048 / 100 :: rat) = 360287970189640 \<and>
   snd (handler sample_runtime configured (resolving stored)
          (notification (sample_payment (Str ''  User@Example.COM '') (Num 36028797018964048)))) =
     [CreateClient (Some ''https://project.supabase.co'') (Some ''service-role-key''),
      Insert ''eventsregistrations''
        [\<lparr>event_id = Str ''event_a'', user_email = Str ''user@example.com'',
          amount = Num 360287970189641, payment_id = Str ''pay_1'', status = ''success''\<rparr>]]"
proof -
  have "round (of_int 36028797018964048 / 100 :: rat) = (36028797018964048 + 50) div 100"
    unfolding round_def by (rule round_hundredth)
  then have "round (36028797018964048 / 100 :: rat) = 360287970189640"
    by simp
  moreover have "snd (handler sample_runtime configured (resolving stored)
          (notification (sample_payment (Str ''  User@Example.COM '') (Num 36028797018964048)))) =
     [CreateClient (Some ''https://project.supabase.co'') (Some ''service-role-key''),
      Insert ''eventsregistrations''
        [\<lparr>event_id = Str ''event_a'', user_email = Str ''user@example.com'',
          amount = Num 360287970189641, payment_id = Str ''pay_1'', status = ''success''\<rparr>]]"
    unfolding sample_notification_runs large_rounded by simp
  ultimately show ?thesis
    using large_double by simp
qed

text \<open>
  C2, as the handler does it. For a notification whose minor-unit amount is an integer
  \<open>a\<close> of magnitude at most \<open>2^53\<close>, the range in which the number type holds every
  integer, the amount of the record handed to the insert is \<open>a / 100\<close> rounded to the
  nearest integer, a half rounding up: \<open>(a + 50) div 100\<close>, so 12345 gives 123 and 150
  gives 2 (truncation would give 1).
\<close>

theorem amount_rounded_to_major_unit:
  assumes "Insert t rows \<in> set (snd (handler rt env cc req))"
      and "opt_get (opt_get (req_body req) ''payment'') ''amount'' = Num (of_int a)"
      and "\<bar>a\<bar> \<le> 2 ^ 53"
  shows "map amount rows = [Num (of_int (round (of_int a / 100 :: rat)))] \<and>
         round (of_int a / 100 :: rat) = (a + 50) div 100"
proof -
  from handler_insertD [OF assms(1)] obtain rupees registration where
    h: "amountInRupees rt (opt_get (req_body req) ''payment'') = Inr rupees"
       "registrationData rt (opt_get (req_body req) ''payment'') rupees = Inr registration"
       "rows = [registration]"
    by blast
  from h(1) have "rupees = Num (of_int \<lfloor>double_of (of_int a / 100) + 1 / 2\<rfloor>)"
    unfolding amountInRupees_Num [OF assms(2)] .
  then have "rupees = Num (of_int ((a + 50) div 100))"
    unfolding round_hundredth_double [OF assms(3)] .
  moreover from registrationData_fields [OF h(2)] have "amount registration = rupees"
    by blast
  ultimately show ?thesis
    using h(3) by (simp add: round_def round_hundredth)
qed

theorem amount_rounded_to_major_unit_witness:
  "snd (handler sample_runtime configured (resolving stored)
          (notification (sample_payment (Str ''  User@Example.COM '') (Num 150)))) =
     [CreateClient (Some ''https://project.supabase.co'') (Some ''service-role-key''),
      Insert ''eventsregistrations''
        [\<lparr>event_id = Str ''event_a'', user_email = Str ''user@example.com'',
          amount = Num 2, payment_id = Str ''pay_1'', status = ''success''\<rparr>]] \<and>
   round (150 / 100 :: rat) = 2 \<and>
   snd (handler sample_runtime configured (resolving stored)
          (notification (sample_payment (Str ''  User@Example.COM '') (Num 12345)))) =
     [CreateClient (Some ''https://project.supabase.co'') (Some ''service-role-key''),
      Insert ''eventsregistrations''
        [\<lparr>event_id = Str ''event_a'', user_email = Str ''user@example.com'',
          amount = Num 123, payment_id = Str ''pay_1'', status = ''success''\<rparr>]] \<and>
   round (12345 / 100 :: rat) = 123"
proof -
  let ?req = "\<lambda>minor. notification (sample_payment (Str ''  User@Example.COM '') (Num minor))"
  let ?h = "\<lambda>minor. handler sample_runtime configured (resolving stored) (?req minor)"
  let ?row = "\<lambda>major. \<lparr>event_id = Str ''event_a'', user_email = Str ''user@example.com'',
                amount = Num major, payment_id = Str ''pay_1'', status = ''success''\<rparr>"
  have run: "snd (?h 150) =
               [CreateClient (Some ''https://project.supabase.co'') (Some ''service-role-key''),
                Insert ''eventsregistrations'' [?row 2]]"
            "snd (?h 12345) =
               [CreateClient (Some ''https://project.supabase.co'') (Some ''service-role-key''),
                Insert ''eventsregistrations'' [?row 123]]"
    unfolding sample_notification_runs sample_rounded by simp_all
  have 1: "Insert ''eventsregistrations'' [?row 2] \<in> set (snd (?h 150))"
    and 4: "Insert ''eventsregistrations'' [?row 123] \<in> set (snd (?h 12345))"
    unfolding run by simp_all
  have 2: "opt_get (opt_get (req_body (?req 150)) ''payment'') ''amount'' = Num (of_int 150)"
    and 5: "opt_get (opt_get (req_body (?req 12345)) ''payment'') ''amount'' = Num (of_int 12345)"
    by (simp_all add: notification_def sample_payment_def opt_get_def)
  have 3: "\<bar>150 :: int\<bar> \<le> 2 ^ 53" and 6: "\<bar>12345 :: int\<bar> \<le> 2 ^ 53"
    by simp_all
  from amount_rounded_to_major_unit [OF 1 2 3] amount_rounded_to_major_unit [OF 4 5 6]
  have "Num 2 = Num (of_int (round (of_int 150 / 100 :: rat)))"
       "Num 123 = Num (of_int (round (of_int 12345 / 100 :: rat)))"
    by simp_all
  then have "round (150 / 100 :: rat) = 2" "round (12345 / 100 :: rat) = 123"
    by simp_all
  with run show ?thesis by simp
qed

text \<open>
  C3. The handler tests the three string fields for truthiness, not for their type: a
  notification whose \<^verbatim>\<open>payment.id\<close> is the number 7 and whose email is absent is
  answered 400 with \<^verbatim>\<open>payment.email\<close> alone in \<^verbatim>\<open>missing_fields\<close>, where the
  specification's wording names \<^verbatim>\<open>payment.id\<close> as well.
\<close>

theorem wrong_typed_id_not_reported:
  "spec_missing_fields
     (Obj [(''id'', Num 7), (''amount'', Num 100), (''notes'', Obj [(''event_id'', Str ''event_a'')])]) =
     [''payment.id'', ''payment.email''] \<and>
   handler sample_runtime configured (resolving stored)
     (notification
       (Obj [(''id'', Num 7), (''amount'', Num 100), (''notes'', Obj [(''event_id'', Str ''event_a'')])])) =
     (\<lparr>res_status = 400, res_headers = cors,
       res_body = Some (Obj [(''error'', Str ''Missing required payment data''),
         (''missing_fields'', Arr [Str ''payment.email'']),
         (''received_data'',
            Obj [(''hasPayment'', Bool True), (''hasId'', Bool True), (''hasEmail'', Bool False),
                 (''hasAmount'', Str ''number''), (''hasNotes'', Bool True),
                 (''hasEventId'', Bool True)])])\<rparr>,
      [CreateClient (Some ''https://project.supabase.co'') (Some ''service-role-key'')])"
  by (simp add: spec_missing_fields_def handler_def handler_try_def json_def Let_def
      missingFields_def received_data_def opt_get_def notification_def configured_def
      resolving_def)

text \<open>
  C3, as the handler does it. For a \<^verbatim>\<open>POST\<close> of a \<^verbatim>\<open>payment.captured\<close>
  notification, with both credentials set and the client created: when at least one of
  the four checks fails, the answer is 400 with the snapshot \<^verbatim>\<open>received_data\<close>, and
  \<^verbatim>\<open>missing_fields\<close> names every failing check, in the order of the checks, and no
  other. The checks: \<^verbatim>\<open>payment.id\<close>, \<^verbatim>\<open>payment.email\<close> and
  \<^verbatim>\<open>payment.notes.event_id\<close> fail when absent or falsy, \<^verbatim>\<open>payment.amount\<close> fails
  when it is not a number.
\<close>

theorem failing_checks_all_reported:
  assumes "req_method req = Some ''POST''"
      and "env_truthy (SUPABASE_URL env)" and "env_truthy (SUPABASE_SERVICE_ROLE_KEY env)"
      and "cc (SUPABASE_URL env) (SUPABASE_SERVICE_ROLE_KEY env) = Inr supabase"
      and "get (req_body req) ''event'' = Inr (Str ''payment.captured'')"
      and "payment = opt_get (req_body req) ''payment''"
      and "opt_get payment ''id'' \<in> falsy \<or> opt_get payment ''email'' \<in> falsy \<or>
           \<not> is_number (opt_get payment ''amount'') \<or>
           opt_get (opt_get payment ''notes'') ''event_id'' \<in> falsy"
  shows "handler rt env cc req =
           (\<lparr>res_status = 400, res_headers = cors,
             res_body = Some (Obj [(''error'', Str ''Missing required payment data''),
               (''missing_fields'', Arr (map Str
                  ((if opt_get payment ''id'' \<in> falsy then [''payment.id''] else []) @
                   (if opt_get payment ''email'' \<in> falsy then [''payment.email''] else []) @
                   (if is_number (opt_get payment ''amount'') then [] else [''payment.amount'']) @
                   (if opt_get (opt_get payment ''notes'') ''event_id'' \<in> falsy
                    then [''payment.notes.event_id''] else [])))),
               (''received_data'', received_data payment)])\<rparr>,
            [CreateClient (SUPABASE_URL env) (SUPABASE_SERVICE_ROLE_KEY env)])"
proof -
  from assms(7) have "missingFields payment \<noteq> []"
    unfolding missingFields_falsy by auto
  with assms(6) have "missingFields (opt_get (req_body req) ''payment'') \<noteq> []"
    by simp
  from handler_validates [where cc = cc and rt = rt, OF assms(1-5) this] show ?thesis
    unfolding assms(6) [symmetric] missingFields_falsy .
qed

theorem failing_checks_all_reported_witness:
  "handler sample_runtime configured (resolving stored)
     (notification
       (Obj [(''id'', Str ''pay_1''), (''amount'', Str ''100''),
             (''notes'', Obj [(''event_id'', Str ''event_a'')])])) =
     (\<lparr>res_status = 400, res_headers = cors,
       res_body = Some (Obj [(''error'', Str ''Missing required payment data''),
         (''missing_fields'', Arr [Str ''payment.email'', Str ''payment.amount'']),
         (''received_data'',
            Obj [(''hasPayment'', Bool True), (''hasId'', Bool True), (''hasEmail'', Bool False),
                 (''hasAmount'', Str ''string''), (''hasNotes'', Bool True),
                 (''hasEventId'', Bool True)])])\<rparr>,
      [CreateClient (Some ''https://project.supabase.co'') (Some ''service-role-key'')])"
proof -
  let ?p = "Obj [(''id'', Str ''pay_1''), (''amount'', Str ''100''),
                 (''notes'', Obj [(''event_id'', Str ''event_a'')])]"
  have 1: "req_method (notification ?p) = Some ''POST''"
    and 5: "get (req_body (notification ?p)) ''event'' = Inr (Str ''payment.captured'')"
    and 6: "?p = opt_get (req_body (notification ?p)) ''payment''"
    by (simp_all add: notification_def opt_get_def)
  have 2: "env_truthy (SUPABASE_URL configured)"
    and 3: "env_truthy (SUPABASE_SERVICE_ROLE_KEY configured)"
    and 4: "resolving stored (SUPABASE_URL configured) (SUPABASE_SERVICE_ROLE_KEY configured) =
              Inr (Client (\<lambda>table rows. Inr stored))"
    by (simp_all add: configured_def resolving_def)
  have 7: "opt_get ?p ''id'' \<in> falsy \<or> opt_get ?p ''email'' \<in> falsy \<or>
           \<not> is_number (opt_get ?p ''amount'') \<or>
           opt_get (opt_get ?p ''notes'') ''event_id'' \<in> falsy"
    by (simp add: opt_get_def)
  from failing_checks_all_reported
         [where req = "notification ?p" and env = configured and cc = "resolving stored"
            and payment = ?p and rt = sample_runtime, OF 1 2 3 4 5 6 7]
  show ?thesis
    by (simp add: opt_get_def falsy_def received_data_def configured_def)
qed

text \<open>
  C4. The configuration gate stands before the event filter: with no credentials a
  \<^verbatim>\<open>POST\<close> of another event is answered 500, not 200.
\<close>

theorem other_event_unconfigured_is_500:
  "handler sample_runtime unconfigured (resolving stored)
     \<lparr>req_method = Some ''POST'', req_body = Obj [(''event'', Str ''payment.failed'')]\<rparr> =
     (\<lparr>res_status = 500, res_headers = cors,
       res_body = Some (Obj [(''error'',
         Str ''Server configuration error: Missing Supabase credentials'')])\<rparr>, [])"
  by (simp add: handler_def handler_try_def json_def unconfigured_def)

text \<open>
  C4, as the handler does it. A request whose event is a string other than
  \<^verbatim>\<open>payment.captured\<close> never leads to an insert. When it is a \<^verbatim>\<open>POST\<close>, both
  credentials are set and the client is created, it is answered 200 with the message
  that the event is ignored, which ends with the event received; the creation of the
  client is the only call to the library.
\<close>

theorem other_event_ignored:
  assumes "get (req_body req) ''event'' = Inr (Str ev)"
      and "ev \<noteq> ''payment.captured''"
  shows "(\<forall>c \<in> set (snd (handler rt env cc req)). \<not> is_insert c) \<and>
         (req_method req = Some ''POST'' \<and>
          env_truthy (SUPABASE_URL env) \<and> env_truthy (SUPABASE_SERVICE_ROLE_KEY env) \<and>
          cc (SUPABASE_URL env) (SUPABASE_SERVICE_ROLE_KEY env) = Inr supabase \<longrightarrow>
            handler rt env cc req =
              (\<lparr>res_status = 200, res_headers = cors,
                res_body = Some (Obj [(''message'',
                  Str (''Event ignored. Only payment.captured events are processed. Received: '' @ ev))])\<rparr>,
               [CreateClient (SUPABASE_URL env) (SUPABASE_SERVICE_ROLE_KEY env)]))"
proof -
  have "\<not> is_insert c" if "c \<in> set (snd (handler rt env cc req))" for c
  proof (cases c)
    case (Insert t rows)
    with that handler_try_insertD [of t rows rt env cc req] handler_not_post_calls [of req rt env cc]
      handler_calls [of req rt env cc] assms
    show ?thesis
      by (cases "req_method req = Some ''POST''") auto
  qed simp
  moreover have "handler rt env cc req =
      (\<lparr>res_status = 200, res_headers = cors,
        res_body = Some (Obj [(''message'',
          Str (''Event ignored. Only payment.captured events are processed. Received: '' @ ev))])\<rparr>,
       [CreateClient (SUPABASE_URL env) (SUPABASE_SERVICE_ROLE_KEY env)])"
    if "req_method req = Some ''POST''" "env_truthy (SUPABASE_URL env)"
       "env_truthy (SUPABASE_SERVICE_ROLE_KEY env)"
       "cc (SUPABASE_URL env) (SUPABASE_SERVICE_ROLE_KEY env) = Inr supabase"
    using that assms by (simp add: handler_def handler_try_def json_def Let_def)
  ultimately show ?thesis by blast
qed

theorem other_event_ignored_witness:
  "handler sample_runtime configured (resolving stored)
     \<lparr>req_method = Some ''POST'', req_body = Obj [(''event'', Str ''payment.failed'')]\<rparr> =
     (\<lparr>res_status = 200, res_headers = cors,
       res_body = Some (Obj [(''message'',
         Str ''Event ignored. Only payment.captured events are processed. Received: payment.failed'')])\<rparr>,
      [CreateClient (Some ''https://project.supabase.co'') (Some ''service-role-key'')])"
proof -
  let ?req = "\<lparr>req_method = Some ''POST'', req_body = Obj [(''event'', Str ''payment.failed'')]\<rparr>"
  have 1: "get (req_body ?req) ''event'' = Inr (Str ''payment.failed'')"
    by simp
  have 2: "''payment.failed'' \<noteq> ''payment.captured''"
    by simp
  have 3: "req_method ?req = Some ''POST'' \<and>
           env_truthy (SUPABASE_URL configured) \<and> env_truthy (SUPABASE_SERVICE_ROLE_KEY configured) \<and>
           resolving stored (SUPABASE_URL configured) (SUPABASE_SERVICE_ROLE_KEY configured) =
             Inr (Client (\<lambda>table rows. Inr stored))"
    by (simp add: configured_def resolving_def)
  from other_event_ignored [OF 1 2, of sample_runtime configured "resolving stored"
         "Client (\<lambda>table rows. Inr stored)"] 3
  show ?thesis
    by (simp add: configured_def)
qed

text \<open>
  C5. The method gate stands before the configuration gate: with no credentials a
  \<^verbatim>\<open>GET\<close> is answered 405, not 500.
\<close>

theorem missing_credentials_get_is_405:
  "SUPABASE_URL unconfigured = None \<and>
   handler sample_runtime unconfigured (resolving stored)
     \<lparr>req_method = Some ''GET'', req_body = Undefined\<rparr> =
     (\<lparr>res_status = 405, res_headers = cors,
       res_body = Some (Obj [(''error'', Str ''Method not allowed. Only POST requests are accepted.''),
                             (''allowed_methods'', Arr [Str ''POST''])])\<rparr>, [])"
  by (simp add: handler_def json_def unconfigured_def)

text \<open>
  C5, as the handler does it. When a credential is unset or empty, no request leads to
  a call of the store library, whose behaviour then has no influence on the answer, and
  every \<^verbatim>\<open>POST\<close> request is answered 500 with the server configuration error.
\<close>

theorem missing_credentials_fail_before_store:
  assumes "\<not> env_truthy (SUPABASE_URL env) \<or> \<not> env_truthy (SUPABASE_SERVICE_ROLE_KEY env)"
  shows "snd (handler rt env cc req) = [] \<and>
         handler rt env cc' req = handler rt env cc req \<and>
         (req_method req = Some ''POST'' \<longrightarrow>
            fst (handler rt env cc req) =
              \<lparr>res_status = 500, res_headers = cors,
               res_body = Some (Obj [(''error'',
                 Str ''Server configuration error: Missing Supabase credentials'')])\<rparr>)"
  using assms by (auto simp: handler_def handler_try_def json_def)

theorem missing_credentials_fail_before_store_witness:
  "handler sample_runtime unconfigured (resolving stored)
     (notification (sample_payment (Str ''  User@Example.COM '') (Num 12345))) =
     (\<lparr>res_status = 500, res_headers = cors,
       res_body = Some (Obj [(''error'',
         Str ''Server configuration error: Missing Supabase credentials'')])\<rparr>, [])"
proof -
  let ?req = "notification (sample_payment (Str ''  User@Example.COM '') (Num 12345))"
  have 1: "\<not> env_truthy (SUPABASE_URL unconfigured) \<or>
           \<not> env_truthy (SUPABASE_SERVICE_ROLE_KEY unconfigured)"
    by (simp add: unconfigured_def)
  have 2: "req_method ?req = Some ''POST''"
    by (simp add: notification_def)
  from missing_credentials_fail_before_store
         [OF 1, of sample_runtime "resolving stored" ?req "resolving stored"] 2
  show ?thesis
    by (simp add: prod_eq_iff)
qed

text \<open>
  C6. A request whose method is not \<^verbatim>\<open>POST\<close> is answered at once and without a
  call to the store: \<^verbatim>\<open>OPTIONS\<close> with 200 and no body, any other method with 405
  and the list of allowed methods.
\<close>

theorem non_post_answered_without_store:
  assumes "req_method req \<noteq> Some ''POST''"
  shows "handler rt env cc req =
           (if req_method req = Some ''OPTIONS'' then
              (\<lparr>res_status = 200, res_headers = cors, res_body = None\<rparr>, [])
            else
              (\<lparr>res_status = 405, res_headers = cors,
                res_body = Some (Obj [(''error'', Str ''Method not allowed. Only POST requests are accepted.''),
                                      (''allowed_methods'', Arr [Str ''POST''])])\<rparr>, []))"
  using assms by (simp add: handler_def json_def end_response_def)

theorem non_post_answered_without_store_witness:
  "handler sample_runtime configured (resolving stored)
     \<lparr>req_method = Some ''OPTIONS'', req_body = Undefined\<rparr> =
     (\<lparr>res_status = 200, res_headers = cors, res_body = None\<rparr>, []) \<and>
   handler sample_runtime configured (resolving stored)
     \<lparr>req_method = Some ''GET'', req_body = Undefined\<rparr> =
     (\<lparr>res_status = 405, res_headers = cors,
       res_body = Some (Obj [(''error'', Str ''Method not allowed. Only POST requests are accepted.''),
                             (''allowed_methods'', Arr [Str ''POST''])])\<rparr>, [])"
proof -
  have 1: "req_method \<lparr>req_method = Some ''OPTIONS'', req_body = Undefined\<rparr> \<noteq> Some ''POST''"
    by simp
  have 2: "req_method \<lparr>req_method = Some ''GET'', req_body = Undefined\<rparr> \<noteq> Some ''POST''"
    by simp
  from non_post_answered_without_store [OF 1, of sample_runtime configured "resolving stored"]
       non_post_answered_without_store [OF 2, of sample_runtime configured "resolving stored"]
  show ?thesis by simp
qed

text \<open>
  C7. The email of the record handed to the insert is the payer email of the
  notification, which is a string, after \<^verbatim>\<open>toLowerCase\<close> and then \<^verbatim>\<open>trim\<close>. For an
  ASCII email that is the email with its letters A to Z lower-cased and the white space
  at both ends removed; for an email with other characters the two methods are the
  engine's, with its Unicode case conversion and white space. The event id and the
  payment id of the record are the values of \<^verbatim>\<open>payment.notes.event_id\<close> and
  \<^verbatim>\<open>payment.id\<close>, unchanged.
\<close>

theorem email_normalised_ids_verbatim:
  assumes "Insert t rows \<in> set (snd (handler rt env cc req))"
  shows "\<exists>s. opt_get (opt_get (req_body req) ''payment'') ''email'' = Str s \<and>
             map user_email rows = [Str (trim rt (toLowerCase rt s))] \<and>
             (ascii s \<longrightarrow>
                (\<exists>l. lower_cased s l \<and> trimmed l (trim rt (toLowerCase rt s)))) \<and>
             (\<not> ascii s \<longrightarrow>
                toLowerCase rt s = Unicode_toLowerCase rt s \<and>
                (\<not> ascii (toLowerCase rt s) \<longrightarrow>
                   trim rt (toLowerCase rt s) = Unicode_trim rt (Unicode_toLowerCase rt s))) \<and>
             map event_id rows =
               [opt_get (opt_get (opt_get (req_body req) ''payment'') ''notes'') ''event_id''] \<and>
             map payment_id rows = [opt_get (opt_get (req_body req) ''payment'') ''id'']"
proof -
  from handler_insertD [OF assms] obtain rupees registration where
    h: "registrationData rt (opt_get (req_body req) ''payment'') rupees = Inr registration"
       "rows = [registration]"
    by blast
  from registrationData_fields [OF h(1)] obtain s where
    s: "opt_get (opt_get (req_body req) ''payment'') ''email'' = Str s"
       "user_email registration = Str (trim rt (toLowerCase rt s))"
       "event_id registration =
          opt_get (opt_get (opt_get (req_body req) ''payment'') ''notes'') ''event_id''"
       "payment_id registration = opt_get (opt_get (req_body req) ''payment'') ''id''"
    by blast
  have "\<exists>l. lower_cased s l \<and> trimmed l (trim rt (toLowerCase rt s))" if "ascii s"
    using that by (rule normalised_email_ascii)
  moreover have "toLowerCase rt s = Unicode_toLowerCase rt s" if "\<not> ascii s"
    using that by (simp add: toLowerCase_def)
  moreover have "trim rt (toLowerCase rt s) = Unicode_trim rt (Unicode_toLowerCase rt s)"
    if "\<not> ascii s" "\<not> ascii (toLowerCase rt s)"
    using that by (simp add: toLowerCase_def trim_def)
  ultimately show ?thesis
    using s h(2) by auto
qed

theorem email_normalised_ids_verbatim_witness:
  "snd (handler sample_runtime configured (resolving stored)
          (notification (sample_payment (Str ''  User@Example.COM '') (Num 12345)))) =
     [CreateClient (Some ''https://project.supabase.co'') (Some ''service-role-key''),
      Insert ''eventsregistrations''
        [\<lparr>event_id = Str ''event_a'', user_email = Str ''user@example.com'',
          amount = Num 123, payment_id = Str ''pay_1'', status = ''success''\<rparr>]] \<and>
   ascii ''  User@Example.COM '' \<and>
   (\<exists>l. lower_cased ''  User@Example.COM '' l \<and> trimmed l ''user@example.com'')"
proof -
  let ?req = "notification (sample_payment (Str ''  User@Example.COM '') (Num 12345))"
  let ?row = "\<lparr>event_id = Str ''event_a'', user_email = Str ''user@example.com'',
                amount = Num 123, payment_id = Str ''pay_1'', status = ''success''\<rparr>"
  have run: "snd (handler sample_runtime configured (resolving stored) ?req) =
               [CreateClient (Some ''https://project.supabase.co'') (Some ''service-role-key''),
                Insert ''eventsregistrations'' [?row]]"
    unfolding sample_notification_runs sample_rounded by simp
  have 1: "Insert ''eventsregistrations'' [?row]
             \<in> set (snd (handler sample_runtime configured (resolving stored) ?req))"
    unfolding run by simp
  have a: "ascii ''  User@Example.COM ''"
    by (simp add: ascii_def)
  have e: "opt_get (opt_get (req_body ?req) ''payment'') ''email'' = Str ''  User@Example.COM ''"
    by (simp add: notification_def sample_payment_def opt_get_def)
  from email_normalised_ids_verbatim [OF 1] a
  have "\<exists>l. lower_cased ''  User@Example.COM '' l \<and> trimmed l ''user@example.com''"
    unfolding e by auto
  with run a show ?thesis by simp
qed

text \<open>
  C8. When the insert of a request that reached it resolves without an error and with
  no row (\<^verbatim>\<open>data\<close> is \<^verbatim>\<open>null\<close> or the empty array), the handler answers 500.
\<close>

theorem no_row_returned_is_500:
  assumes "Insert t rows \<in> set (snd (handler rt env cc req))"
      and "cc (SUPABASE_URL env) (SUPABASE_SERVICE_ROLE_KEY env) = Inr supabase"
      and "from_insert_select supabase t rows = Inr r"
      and "error r = None"
      and "data r = None \<or> data r = Some []"
  shows "fst (handler rt env cc req) =
           \<lparr>res_status = 500, res_headers = cors,
            res_body = Some (Obj [(''error'', Str ''Registration may not have been saved properly'')])\<rparr>"
proof -
  from handler_insertD [OF assms(1)] obtain supabase' rupees where
    h: "cc (SUPABASE_URL env) (SUPABASE_SERVICE_ROLE_KEY env) = Inr supabase'" and
    res: "fst (handler rt env cc req) =
             (case from_insert_select supabase' t rows of
                Inl e \<Rightarrow> catch_response e
              | Inr r \<Rightarrow> (case after_insert rt (opt_get (req_body req) ''payment'') rupees r of
                           Inl e \<Rightarrow> catch_response e | Inr res \<Rightarrow> res))"
    by blast
  from h assms(2) have same: "supabase' = supabase"
    by simp
  have "after_insert rt (opt_get (req_body req) ''payment'') rupees r =
          Inr (json cors 500 (Obj [(''error'', Str ''Registration may not have been saved properly'')]))"
    using assms(4,5) by (auto simp: after_insert_def)
  with res same assms(3) show ?thesis
    by (simp add: json_def)
qed

theorem no_row_returned_is_500_witness:
  "fst (handler sample_runtime configured (resolving no_rows)
          (notification (sample_payment (Str ''  User@Example.COM '') (Num 12345)))) =
     \<lparr>res_status = 500, res_headers = cors,
      res_body = Some (Obj [(''error'', Str ''Registration may not have been saved properly'')])\<rparr>"
proof -
  let ?req = "notification (sample_payment (Str ''  User@Example.COM '') (Num 12345))"
  let ?row = "\<lparr>event_id = Str ''event_a'', user_email = Str ''user@example.com'',
                amount = Num 123, payment_id = Str ''pay_1'',
                status = ''success''\<rparr>"
  have 1: "Insert ''eventsregistrations'' [?row]
             \<in> set (snd (handler sample_runtime configured (resolving no_rows) ?req))"
    using sample_notification_runs [of no_rows 12345] sample_rounded by simp
  have 2: "resolving no_rows (SUPABASE_URL configured) (SUPABASE_SERVICE_ROLE_KEY configured)
             = Inr (Client (\<lambda>table rows. Inr no_rows))"
    by (simp add: resolving_def)
  have 3: "from_insert_select (Client (\<lambda>table rows. Inr no_rows)) ''eventsregistrations'' [?row]
             = Inr no_rows"
    by simp
  have 4: "error no_rows = None" and 5: "data no_rows = None \<or> data no_rows = Some []"
    by (simp_all add: no_rows_def)
  from no_row_returned_is_500 [OF 1 2 3 4 5] show ?thesis .
qed

text \<open>
  C9. The configuration gate stands before the validation: with no credentials a
  \<^verbatim>\<open>payment.captured\<close> notification without a payment is answered 500, not 400.
\<close>

theorem absent_payment_unconfigured_is_500:
  "handler sample_runtime unconfigured (resolving stored)
     \<lparr>req_method = Some ''POST'', req_body = Obj [(''event'', Str ''payment.captured'')]\<rparr> =
     (\<lparr>res_status = 500, res_headers = cors,
       res_body = Some (Obj [(''error'',
         Str ''Server configuration error: Missing Supabase credentials'')])\<rparr>, [])"
  by (simp add: handler_def handler_try_def json_def unconfigured_def)

text \<open>
  C9, as the handler does it. For a \<^verbatim>\<open>POST\<close> of a \<^verbatim>\<open>payment.captured\<close>
  notification whose payment is absent or \<^verbatim>\<open>null\<close>, with both credentials set and the
  client created, nothing is thrown: the answer is 400 and \<^verbatim>\<open>missing_fields\<close> holds the
  four field names.
\<close>

theorem absent_payment_is_400:
  assumes "req_method req = Some ''POST''"
      and "env_truthy (SUPABASE_URL env)" and "env_truthy (SUPABASE_SERVICE_ROLE_KEY env)"
      and "cc (SUPABASE_URL env) (SUPABASE_SERVICE_ROLE_KEY env) = Inr supabase"
      and "get (req_body req) ''event'' = Inr (Str ''payment.captured'')"
      and "opt_get (req_body req) ''payment'' = Undefined \<or> opt_get (req_body req) ''payment'' = Null"
  shows "handler_try rt env cc req =
           (Inr \<lparr>res_status = 400, res_headers = cors,
             res_body = Some (Obj [(''error'', Str ''Missing required payment data''),
               (''missing_fields'',
                  Arr [Str ''payment.id'', Str ''payment.email'', Str ''payment.amount'',
                       Str ''payment.notes.event_id'']),
               (''received_data'',
                  Obj [(''hasPayment'', Bool False), (''hasId'', Bool False),
                       (''hasEmail'', Bool False), (''hasAmount'', Str ''undefined''),
                       (''hasNotes'', Bool False), (''hasEventId'', Bool False)])])\<rparr>,
            [CreateClient (SUPABASE_URL env) (SUPABASE_SERVICE_ROLE_KEY env)]) \<and>
         fst (handler rt env cc req) =
           \<lparr>res_status = 400, res_headers = cors,
             res_body = Some (Obj [(''error'', Str ''Missing required payment data''),
               (''missing_fields'',
                  Arr [Str ''payment.id'', Str ''payment.email'', Str ''payment.amount'',
                       Str ''payment.notes.event_id'']),
               (''received_data'',
                  Obj [(''hasPayment'', Bool False), (''hasId'', Bool False),
                       (''hasEmail'', Bool False), (''hasAmount'', Str ''undefined''),
                       (''hasNotes'', Bool False), (''hasEventId'', Bool False)])])\<rparr>"
proof -
  let ?payment = "opt_get (req_body req) ''payment''"
  from assms(5) have pay: "get (req_body req) ''payment'' = Inr ?payment"
    by (rule get_of_defined)
  from assms(6) have fields: "opt_get ?payment ''id'' = Undefined"
      "opt_get ?payment ''email'' = Undefined" "opt_get ?payment ''amount'' = Undefined"
      "opt_get ?payment ''notes'' = Undefined" "\<not> truthy ?payment"
    by (auto simp: opt_get_def)
  have mf: "missingFields ?payment =
      [''payment.id'', ''payment.email'', ''payment.amount'', ''payment.notes.event_id'']"
    by (simp add: missingFields_def fields opt_get_undefined)
  have rd: "received_data ?payment =
      Obj [(''hasPayment'', Bool False), (''hasId'', Bool False),
           (''hasEmail'', Bool False), (''hasAmount'', Str ''undefined''),
           (''hasNotes'', Bool False), (''hasEventId'', Bool False)]"
    by (simp add: received_data_def fields opt_get_undefined)
  have run: "handler_try rt env cc req =
      (Inr (json cors 400 (Obj [(''error'', Str ''Missing required payment data''),
               (''missing_fields'', Arr (map Str (missingFields ?payment))),
               (''received_data'', received_data ?payment)])),
       [CreateClient (SUPABASE_URL env) (SUPABASE_SERVICE_ROLE_KEY env)])"
    using assms(2-5) pay mf by (simp add: handler_try_def Let_def)
  then show ?thesis
    using assms(1) by (simp add: handler_response mf rd json_def)
qed

theorem absent_payment_is_400_witness:
  "fst (handler sample_runtime configured (resolving stored)
     \<lparr>req_method = Some ''POST'', req_body = Obj [(''event'', Str ''payment.captured'')]\<rparr>) =
     \<lparr>res_status = 400, res_headers = cors,
       res_body = Some (Obj [(''error'', Str ''Missing required payment data''),
         (''missing_fields'',
            Arr [Str ''payment.id'', Str ''payment.email'', Str ''payment.amount'',
                 Str ''payment.notes.event_id'']),
         (''received_data'',
            Obj [(''hasPayment'', Bool False), (''hasId'', Bool False),
                 (''hasEmail'', Bool False), (''hasAmount'', Str ''undefined''),
                 (''hasNotes'', Bool False), (''hasEventId'', Bool False)])])\<rparr> \<and>
   res_status (fst (handler sample_runtime configured (resolving stored) (notification Null))) = 400"
proof -
  let ?absent = "\<lparr>req_method = Some ''POST'', req_body = Obj [(''event'', Str ''payment.captured'')]\<rparr>"
  have a: "req_method ?absent = Some ''POST''"
          "get (req_body ?absent) ''event'' = Inr (Str ''payment.captured'')"
          "opt_get (req_body ?absent) ''payment'' = Undefined \<or>
           opt_get (req_body ?absent) ''payment'' = Null"
    by (simp_all add: opt_get_def)
  have n: "req_method (notification Null) = Some ''POST''"
          "get (req_body (notification Null)) ''event'' = Inr (Str ''payment.captured'')"
          "opt_get (req_body (notification Null)) ''payment'' = Undefined \<or>
           opt_get (req_body (notification Null)) ''payment'' = Null"
    by (simp_all add: opt_get_def notification_def)
  have c: "env_truthy (SUPABASE_URL configured)"
          "env_truthy (SUPABASE_SERVICE_ROLE_KEY configured)"
          "resolving stored (SUPABASE_URL configured) (SUPABASE_SERVICE_ROLE_KEY configured) =
              Inr (Client (\<lambda>table rows. Inr stored))"
    by (simp_all add: configured_def resolving_def)
  from absent_payment_is_400
         [where req = ?absent and env = configured and cc = "resolving stored"
            and rt = sample_runtime, OF a(1) c a(2,3)]
       absent_payment_is_400
         [where req = "notification Null" and env = configured and cc = "resolving stored"
            and rt = sample_runtime, OF n(1) c n(2,3)]
  show ?thesis by simp
qed

text \<open>
  C10. On a \<^verbatim>\<open>payment.captured\<close> notification whose amount is exactly 0 and whose
  other fields are valid, in a configured deployment, the two handlers part: the handler
  of \<^verbatim>\<open>api/payment-webhook.ts\<close> does not report \<^verbatim>\<open>payment.amount\<close> and inserts a
  record of amount 0, the variant finds the amount falsy, answers 400 and inserts
  nothing.
\<close>

theorem zero_amount_accepted_by_handler_rejected_by_variant:
  assumes "req_method req = Some ''POST''"
      and "env_truthy (SUPABASE_URL env)" and "env_truthy (SUPABASE_SERVICE_ROLE_KEY env)"
      and "cc (SUPABASE_URL env) (SUPABASE_SERVICE_ROLE_KEY env) = Inr supabase"
      and "get (req_body req) ''event'' = Inr (Str ''payment.captured'')"
      and "payment = opt_get (req_body req) ''payment''"
      and "opt_get payment ''amount'' = Num 0"
      and "truthy (opt_get payment ''id'')"
      and "opt_get payment ''email'' = Str email" and "email \<noteq> []"
      and "truthy (opt_get (opt_get payment ''notes'') ''event_id'')"
  shows "''payment.amount'' \<notin> set (missingFields payment) \<and>
         snd (handler rt env cc req) =
           [CreateClient (SUPABASE_URL env) (SUPABASE_SERVICE_ROLE_KEY env),
            Insert ''eventsregistrations''
              [\<lparr>event_id = opt_get (opt_get payment ''notes'') ''event_id'',
                user_email = Str (trim rt (toLowerCase rt email)),
                amount = Num 0,
                payment_id = opt_get payment ''id'',
                status = ''success''\<rparr>]] \<and>
         variant_handler rt env cc req =
           (\<lparr>res_status = 400, res_headers = [],
             res_body = Some (Obj [(''error'',
               Str ''Missing required payment data: id, email, amount, or notes.event_id'')])\<rparr>,
            [CreateClient (SUPABASE_URL env) (SUPABASE_SERVICE_ROLE_KEY env)]) \<and>
         handler rt env cc req \<noteq> variant_handler rt env cc req"
proof -
  from assms(5) have pay: "get (req_body req) ''payment'' = Inr payment"
    unfolding assms(6) by (rule get_of_defined)
  have "get payment ''email'' = Inr (Str email)"
    using assms(9) by (cases payment) (auto simp: opt_get_def)
  then have reads: "get payment ''id'' = Inr (opt_get payment ''id'')"
      "get payment ''email'' = Inr (Str email)"
      "get payment ''amount'' = Inr (Num 0)"
    using assms(7) get_of_defined [of payment "''email''" "Str email"] by simp_all
  have half: "\<lfloor>double_of (0 / 100) + 1 / 2\<rfloor> = 0"
    using round_hundredth_double [of 0] by simp
  note mf = valid_notification_inserts(1) [where cc = cc, OF assms(1-11)]
  note main = valid_notification_inserts(2)
    [where cc = cc and rt = rt, OF assms(1-11), unfolded half of_int_0]
  have invalid: "variant_invalid payment = Inr True"
    using reads assms(8,10) by (simp add: variant_invalid_def andThen_def)
  have variant: "variant_handler rt env cc req =
      (\<lparr>res_status = 400, res_headers = [],
        res_body = Some (Obj [(''error'',
          Str ''Missing required payment data: id, email, amount, or notes.event_id'')])\<rparr>,
       [CreateClient (SUPABASE_URL env) (SUPABASE_SERVICE_ROLE_KEY env)])"
    using assms(1,4,5) pay invalid
    by (simp add: variant_handler_def variant_try_def json_def Let_def)
  have "snd (handler rt env cc req) \<noteq> snd (variant_handler rt env cc req)"
    unfolding main variant by simp
  then have "handler rt env cc req \<noteq> variant_handler rt env cc req"
    by auto
  with mf main variant show ?thesis
    by simp
qed

theorem zero_amount_accepted_by_handler_rejected_by_variant_witness:
  "snd (handler sample_runtime configured (resolving stored)
          (notification (sample_payment (Str ''user@example.com'') (Num 0)))) =
     [CreateClient (Some ''https://project.supabase.co'') (Some ''service-role-key''),
      Insert ''eventsregistrations''
        [\<lparr>event_id = Str ''event_a'', user_email = Str (trim sample_runtime (toLowerCase sample_runtime ''user@example.com'')),
          amount = Num 0, payment_id = Str ''pay_1'', status = ''success''\<rparr>]] \<and>
   variant_handler sample_runtime configured (resolving stored)
     (notification (sample_payment (Str ''user@example.com'') (Num 0))) =
     (\<lparr>res_status = 400, res_headers = [],
       res_body = Some (Obj [(''error'',
         Str ''Missing required payment data: id, email, amount, or notes.event_id'')])\<rparr>,
      [CreateClient (Some ''https://project.supabase.co'') (Some ''service-role-key'')])"
proof -
  let ?p = "sample_payment (Str ''user@example.com'') (Num 0)"
  have r: "req_method (notification ?p) = Some ''POST''"
          "get (req_body (notification ?p)) ''event'' = Inr (Str ''payment.captured'')"
          "?p = opt_get (req_body (notification ?p)) ''payment''"
    by (simp_all add: notification_def opt_get_def)
  have c: "env_truthy (SUPABASE_URL configured)"
          "env_truthy (SUPABASE_SERVICE_ROLE_KEY configured)"
          "resolving stored (SUPABASE_URL configured) (SUPABASE_SERVICE_ROLE_KEY configured) =
              Inr (Client (\<lambda>table rows. Inr stored))"
    by (simp_all add: configured_def resolving_def)
  have p: "opt_get ?p ''amount'' = Num 0"
          "truthy (opt_get ?p ''id'')"
          "opt_get ?p ''email'' = Str ''user@example.com''"
          "''user@example.com'' \<noteq> []"
          "truthy (opt_get (opt_get ?p ''notes'') ''event_id'')"
    by (simp_all add: sample_payment_def opt_get_def)
  from zero_amount_accepted_by_handler_rejected_by_variant
         [where req = "notification ?p" and env = configured and cc = "resolving stored"
            and payment = ?p and rt = sample_runtime, OF r(1) c r(2,3) p]
  show ?thesis
    by (simp add: sample_payment_def opt_get_def configured_def)
qed

end
